theory Spec2Isabelle
  imports Complex_Main
begin

section \<open>Values shared by the whole notebook\<close>

text \<open>
  The notebook \<^verbatim>\<open>soap_gap_tutorial_si_surface.ipynb\<close> is a straight-line Python 2
  script over three libraries (ASE, quippy, the \<^verbatim>\<open>teach_sparse\<close> command).  Its cells
  are embedded as functions; a Python exception is a value of \<open>error\<close> on the left of
  a sum.  Floating-point numbers are idealised as reals.

  \<open>IndexError\<close>, \<open>ValueError\<close>, \<open>AttributeError\<close> and \<open>ZeroDivisionError\<close> are
  the exceptions the cells of the notebook can raise.  \<open>InvalidGeometry\<close>,
  \<open>InsufficientData\<close> and \<open>ConnectivityStale\<close> are error kinds that the design document
  names; no cell of the notebook raises them.
\<close>

datatype error =
    IndexError | ValueError | AttributeError | ZeroDivisionError
  | InvalidGeometry | InsufficientData | ConnectivityStale

type_synonym vec3 = "real \<times> real \<times> real"

definition z_of :: "vec3 \<Rightarrow> real" where
  "z_of p = snd (snd p)"

datatype calculator = TB_DFTB | GAP string

text \<open>
  Ghost information: where the momenta of a configuration were last written.  It is not
  data of the program; it records which library call assigned the velocities.
\<close>

datatype velocity_origin = Unassigned | MaxwellBoltzmann real | Integrated

text \<open>
  An \<^verbatim>\<open>Atoms\<close> object.  The cell is kept as the three edge lengths of an orthorhombic box,
  which is what \<^verbatim>\<open>Diamond\<close> with its default directions produces.  \<open>energy\<close> is the
  entry \<^verbatim>\<open>params['energy']\<close> that quippy exposes as the attribute \<^verbatim>\<open>.energy\<close>; it is
  absent until a calculator has stored it.
\<close>

record configuration =
  numbers :: "nat list"
  positions :: "vec3 list"
  momenta :: "vec3 list"
  cell :: vec3
  fixed_mask :: "bool list"
  calc :: "calculator option"
  energy :: "real option"
  momenta_from :: velocity_origin

definition len :: "configuration \<Rightarrow> nat" where
  "len a = length (positions a)"

section \<open>Structure builder: \<^verbatim>\<open>build_slab\<close>\<close>

text \<open>
  Modelled from the spec: the lattice generator \<^verbatim>\<open>Diamond\<close> of ASE, which is library
  code outside the notebook.  The design document says that atoms are placed on a
  diamond-cubic lattice replicated \<open>size\<close> times along the three axes; the eight
  sites of the conventional cubic cell are the standard ones.  The design document
  does not say what the generator does with a non-positive number of cells; here it
  refuses it with a \<open>ValueError\<close>, and nothing proved about \<open>build_slab\<close> for all
  generators depends on that.
\<close>

definition diamond_basis :: "vec3 list" where
  "diamond_basis =
     [(0, 0, 0), (1/4, 1/4, 1/4), (0, 1/2, 1/2), (1/4, 3/4, 3/4),
      (1/2, 0, 1/2), (3/4, 1/4, 3/4), (1/2, 1/2, 0), (3/4, 3/4, 1/4)]"

definition Diamond :: "real \<Rightarrow> int \<times> int \<times> int \<Rightarrow> error + configuration" where
  "Diamond latticeconstant size' =
     (case size' of (nx, ny, nz) \<Rightarrow>
        if nx * ny * nz \<le> 0 then Inl ValueError
        else Inr \<lparr> numbers = replicate (8 * nat nx * nat ny * nat nz) 14,
                   positions =
                     concat (map (\<lambda>i. concat (map (\<lambda>j. concat (map (\<lambda>k.
                       map (\<lambda>(bx, by, bz).
                              (latticeconstant * (real i + bx),
                               latticeconstant * (real j + by),
                               latticeconstant * (real k + bz))) diamond_basis)
                       [0..<nat nz])) [0..<nat ny])) [0..<nat nx]),
                   momenta = [],
                   cell = (latticeconstant * real_of_int nx,
                           latticeconstant * real_of_int ny,
                           latticeconstant * real_of_int nz),
                   fixed_mask = [],
                   calc = None,
                   energy = None,
                   momenta_from = Unassigned \<rparr>)"

text \<open>
  Modelled from the spec: \<^verbatim>\<open>add_vacuum\<close> of ASE (library code): the simulation cell is
  extended along the z axis by the vacuum amount.  Positions are left alone.
\<close>

definition add_vacuum :: "configuration \<Rightarrow> real \<Rightarrow> configuration" where
  "add_vacuum atoms vacuum =
     (case cell atoms of (cx, cy, cz) \<Rightarrow> atoms\<lparr>cell := (cx, cy, cz + vacuum)\<rparr>)"

text \<open>
  \<^verbatim>\<open>atoms.positions[:,2].min()\<close>: numpy raises \<open>ValueError\<close> on an empty array.
\<close>

definition np_min :: "real list \<Rightarrow> error + real" where
  "np_min xs = (if xs = [] then Inl ValueError else Inr (min_list xs))"

text \<open>
  The function of the notebook.  The lattice generator is a parameter, so that what is
  proved about \<open>build_slab\<close> does not depend on how the library builds the lattice.
  \<^verbatim>\<open>
  def build_slab(size=(1,2,2), vacuum=10.):
      lattice = Diamond('Si', latticeconstant=5.44, size=size)
      atoms = Atoms(lattice)
      bottom = atoms.positions[:,2].min()
      fixed_mask = (abs(atoms.positions[:,2] - bottom) < 2.0)
      atoms.set_constraint(FixAtoms(mask=fixed_mask))
      add_vacuum(atoms, vacuum)
      return atoms
  \<close>
\<close>

definition build_slab ::
  "(real \<Rightarrow> int \<times> int \<times> int \<Rightarrow> error + configuration) \<Rightarrow> int \<times> int \<times> int \<Rightarrow> real
     \<Rightarrow> error + configuration" where
  "build_slab lattice_gen size' vacuum =
     (case lattice_gen 5.44 size' of
        Inl e \<Rightarrow> Inl e
      | Inr atoms \<Rightarrow>
          (case np_min (map z_of (positions atoms)) of
             Inl e \<Rightarrow> Inl e
           | Inr bottom \<Rightarrow>
               let fixed = map (\<lambda>p. \<bar>z_of p - bottom\<bar> < 2.0) (positions atoms)
               in Inr (add_vacuum (atoms\<lparr>fixed_mask := fixed\<rparr>) vacuum)))"

section \<open>Dynamics engine: the run loop and its observers\<close>

text \<open>
  Modelled from the spec: the run loop of the Dynamics Engine (\<^verbatim>\<open>attach\<close>,
  \<^verbatim>\<open>call_observers\<close> and \<^verbatim>\<open>run\<close> of ASE's \<^verbatim>\<open>Dynamics\<close>), which is library code
  outside the notebook.  At each step the engine integrates once, counts the step and
  then invokes, in the order of registration, every callback whose interval divides
  the step count.  The engine is generic in the state \<open>'s\<close> it drives and in the
  callbacks \<open>'cb\<close>; \<open>step\<close> receives the number of the step it performs.
\<close>

fun call_observers :: "('cb \<Rightarrow> 's \<Rightarrow> 's) \<Rightarrow> ('cb \<times> nat) list \<Rightarrow> nat \<Rightarrow> 's \<Rightarrow> 's" where
  "call_observers invoke [] n s = s"
| "call_observers invoke ((function, interval) # obs) n s =
     call_observers invoke obs n (if interval dvd n then invoke function s else s)"

fun run ::
  "(nat \<Rightarrow> 's \<Rightarrow> 's) \<Rightarrow> ('cb \<Rightarrow> 's \<Rightarrow> 's) \<Rightarrow> ('cb \<times> nat) list \<Rightarrow> nat \<Rightarrow> nat \<Rightarrow> 's \<Rightarrow> 's" where
  "run step invoke obs n 0 s = s"
| "run step invoke obs n (Suc steps) s =
     run step invoke obs (Suc n) steps
       (call_observers invoke obs (Suc n) (step (Suc n) s))"

text \<open>
  What a run does, as a trace: the engine driven over a log, where the integrator
  records the step it has performed and a callback records that it was called.
\<close>

datatype 'cb event = Updated nat | Called 'cb

definition trace_of_run :: "('cb \<times> nat) list \<Rightarrow> nat \<Rightarrow> nat \<Rightarrow> 'cb event list" where
  "trace_of_run obs n steps =
     run (\<lambda>k tr. tr @ [Updated k]) (\<lambda>f tr. tr @ [Called f]) obs n steps []"

section \<open>The notebook's state\<close>

text \<open>
  The external collaborators are parameters: the physical constants of \<^verbatim>\<open>ase.units\<close>,
  the energy oracle behind \<^verbatim>\<open>get_potential_energy\<close> (it is given the attached
  calculator), the momenta that \<^verbatim>\<open>MaxwellBoltzmannDistribution\<close> draws, the kinetic
  energy, and one Langevin step.  They are total functions: a failing collaborator
  aborts the Python cell and is outside this model.
\<close>

type_synonym addr = nat

datatype callback = Print_status | Print_energy | Collect_data

record dynamics_obj =
  target :: addr
  dt :: real
  temperature :: real
  friction :: real
  nsteps :: nat
  observers :: "(callback \<times> nat) list"

record library =
  units_kB :: real
  units_fs :: real
  potential_energy :: "calculator option \<Rightarrow> configuration \<Rightarrow> real"
  kinetic_energy :: "configuration \<Rightarrow> real"
  maxwell_boltzmann :: "real \<Rightarrow> configuration \<Rightarrow> vec3 list"
  langevin_step :: "dynamics_obj \<Rightarrow> configuration \<Rightarrow> configuration"

datatype printed = Status nat real | Energy real real

text \<open>
  Python objects are shared by reference and mutated in place, so the \<^verbatim>\<open>Atoms\<close> objects
  live in a heap (a list indexed by address; allocation appends).  \<open>atoms\<close>, \<open>dynamics\<close>
  and \<open>db\<close> are the notebook's global variables of these names: \<open>atoms\<close> and the
  entries of \<open>db\<close> are references.  \<open>stdout\<close> keeps, of every printed line, the
  numbers it was formatted from.
\<close>

record notebook =
  heap :: "configuration list"
  atoms :: addr
  dynamics :: dynamics_obj
  db :: "addr list"
  stdout :: "printed list"

definition T :: real where
  "T = 1000.0"

definition timestep :: "library \<Rightarrow> real" where
  "timestep lib = 1.0 * units_fs lib"

definition set_calculator :: "addr \<Rightarrow> calculator \<Rightarrow> notebook \<Rightarrow> notebook" where
  "set_calculator a pot s = s\<lparr>heap := (heap s)[a := (heap s ! a)\<lparr>calc := Some pot\<rparr>]\<rparr>"

text \<open>
  \<^verbatim>\<open>a.get_potential_energy()\<close>: the calculator attached to the object evaluates it and
  stores the energy in the object.
\<close>

definition get_potential_energy :: "library \<Rightarrow> addr \<Rightarrow> notebook \<Rightarrow> real \<times> notebook" where
  "get_potential_energy lib a s =
     (let e = potential_energy lib (calc (heap s ! a)) (heap s ! a)
      in (e, s\<lparr>heap := (heap s)[a := (heap s ! a)\<lparr>energy := Some e\<rparr>]\<rparr>))"

definition MaxwellBoltzmannDistribution :: "library \<Rightarrow> addr \<Rightarrow> real \<Rightarrow> notebook \<Rightarrow> notebook" where
  "MaxwellBoltzmannDistribution lib a temp s =
     s\<lparr>heap := (heap s)[a := (heap s ! a)\<lparr>momenta := maxwell_boltzmann lib temp (heap s ! a),
                                          momenta_from := MaxwellBoltzmann temp\<rparr>]\<rparr>"

definition Langevin :: "addr \<Rightarrow> real \<Rightarrow> real \<Rightarrow> real \<Rightarrow> dynamics_obj" where
  "Langevin a timestep' temp fr =
     \<lparr>target = a, dt = timestep', temperature = temp, friction = fr, nsteps = 0,
      observers = []\<rparr>"

definition attach :: "callback \<Rightarrow> nat \<Rightarrow> dynamics_obj \<Rightarrow> dynamics_obj" where
  "attach function interval d = d\<lparr>observers := observers d @ [(function, interval)]\<rparr>"

text \<open>
  Modelled from the spec: \<^verbatim>\<open>Atoms.copy()\<close> (library code).  The trajectory database
  stores an independent copy of the configuration: a new object with the same content.
\<close>

definition copy :: "addr \<Rightarrow> notebook \<Rightarrow> addr \<times> notebook" where
  "copy a s = (length (heap s), s\<lparr>heap := heap s @ [heap s ! a]\<rparr>)"

text \<open>
  The three callbacks of the notebook.
  \<^verbatim>\<open>
  def print_status():
      print('Step = {}, time = {} [fs], T = {} [K]'.format(dynamics.nsteps, ...,
          atoms.get_kinetic_energy() / (1.5 * units.kB * len(atoms))))
  def print_energy(a=atoms):
      epot = a.get_potential_energy() / len(a)
      ekin = a.get_kinetic_energy() / len(a)
      print(...)
  def collect_data():
      db.append(atoms.copy())
  \<close>
  The default argument of \<^verbatim>\<open>print_energy\<close> is the object that \<open>atoms\<close> refers to; the
  notebook never rebinds \<open>atoms\<close>.
\<close>

definition print_status :: "library \<Rightarrow> notebook \<Rightarrow> notebook" where
  "print_status lib s =
     s\<lparr>stdout := stdout s @
         [Status (nsteps (dynamics s)) (kinetic_energy lib (heap s ! atoms s))]\<rparr>"

definition print_energy :: "library \<Rightarrow> notebook \<Rightarrow> notebook" where
  "print_energy lib s =
     (case get_potential_energy lib (atoms s) s of
        (epot, s') \<Rightarrow>
          s'\<lparr>stdout := stdout s' @ [Energy epot (kinetic_energy lib (heap s' ! atoms s'))]\<rparr>)"

definition collect_data :: "notebook \<Rightarrow> notebook" where
  "collect_data s = (case copy (atoms s) s of (snapshot, s') \<Rightarrow> s'\<lparr>db := db s' @ [snapshot]\<rparr>)"

fun invoke :: "library \<Rightarrow> callback \<Rightarrow> notebook \<Rightarrow> notebook" where
  "invoke lib Print_status s = print_status lib s"
| "invoke lib Print_energy s = print_energy lib s"
| "invoke lib Collect_data s = collect_data s"

text \<open>
  One step of the integrator on the object the dynamics drives; the step count of the
  dynamics object becomes \<open>n\<close>.  The momenta now come from the integrator.
\<close>

definition md_step :: "library \<Rightarrow> nat \<Rightarrow> notebook \<Rightarrow> notebook" where
  "md_step lib n s =
     (let d = dynamics s; a = target d
      in s\<lparr>heap := (heap s)[a := (langevin_step lib d (heap s ! a))\<lparr>momenta_from := Integrated\<rparr>],
           dynamics := d\<lparr>nsteps := n\<rparr>\<rparr>)"

definition dynamics_run :: "library \<Rightarrow> nat \<Rightarrow> notebook \<Rightarrow> notebook" where
  "dynamics_run lib steps s =
     run (md_step lib) (invoke lib) (observers (dynamics s)) (nsteps (dynamics s)) steps s"

section \<open>Part I of the notebook: dynamics with the tight-binding oracle\<close>

text \<open>
  The state in which cell 13 starts: \<open>atoms\<close> refers to the slab that \<^verbatim>\<open>build_slab()\<close>
  returned.  \<open>dynamics\<close> and \<open>db\<close> are not bound yet (cells 13 and 45 bind them before
  any use); the record holds placeholders for them.
\<close>

definition start :: "configuration \<Rightarrow> notebook" where
  "start slab = \<lparr>heap = [slab], atoms = 0, dynamics = Langevin 0 0 0 0, db = [], stdout = []\<rparr>"

text \<open>
  \<^verbatim>\<open>
  qm_pot = Potential('TB DFTB', param_filename='/opt/quip/doc/params.xml')
  atoms.set_calculator(qm_pot)
  MaxwellBoltzmannDistribution(atoms, 2.0 * T * units.kB)
  dynamics = Langevin(atoms, timestep, T * units.kB, 0.002)
  dynamics.attach(print_status, interval=10)
  dynamics.attach(print_energy, interval=1)
  \<close>
\<close>

definition cell13 :: "library \<Rightarrow> notebook \<Rightarrow> notebook" where
  "cell13 lib s =
     (let s1 = set_calculator (atoms s) TB_DFTB s;
          s2 = MaxwellBoltzmannDistribution lib (atoms s1) (2.0 * T * units_kB lib) s1;
          d = Langevin (atoms s2) (timestep lib) (T * units_kB lib) 0.002
      in s2\<lparr>dynamics := attach Print_energy 1 (attach Print_status 10 d)\<rparr>)"

text \<open>\<^verbatim>\<open>dynamics.run(steps=100)\<close>\<close>

definition cell15 :: "library \<Rightarrow> notebook \<Rightarrow> notebook" where
  "cell15 lib s = dynamics_run lib 100 s"

section \<open>Part II of the notebook: the database and the comparison of energies\<close>

text \<open>
  \<^verbatim>\<open>
  db = []
  def collect_data():
      db.append(atoms.copy())
  dynamics.attach(collect_data, interval=10)
  dynamics.run(steps=500)
  \<close>
\<close>

definition cell45_attach :: "notebook \<Rightarrow> notebook" where
  "cell45_attach s =
     (let s1 = s\<lparr>db := []\<rparr>
      in s1\<lparr>dynamics := attach Collect_data 10 (dynamics s1)\<rparr>)"

definition cell45 :: "library \<Rightarrow> notebook \<Rightarrow> notebook" where
  "cell45 lib s = dynamics_run lib 500 (cell45_attach s)"

text \<open>
  \<^verbatim>\<open>qm_energies = [dba.energy for dba in db]\<close>: reading the attribute of a snapshot
  that carries no energy raises \<open>AttributeError\<close>.
\<close>

fun energy_attrs :: "configuration list \<Rightarrow> error + real list" where
  "energy_attrs [] = Inr []"
| "energy_attrs (dba # rest) =
     (case energy dba of
        None \<Rightarrow> Inl AttributeError
      | Some e \<Rightarrow> (case energy_attrs rest of Inl x \<Rightarrow> Inl x | Inr es \<Rightarrow> Inr (e # es)))"

definition qm_energies :: "notebook \<Rightarrow> error + real list" where
  "qm_energies s = energy_attrs (map (\<lambda>dba. heap s ! dba) (db s))"

text \<open>
  The loop of cells 60, 71 and 81, for the fitted potential \<open>pot\<close>:
  \<^verbatim>\<open>
  gap2b_energies = []
  for dba in db:
      a = dba.copy()
      a.set_calculator(gap2b)
      gap2b_energies.append(a.get_potential_energy())
  \<close>
\<close>

fun evaluate_loop ::
  "library \<Rightarrow> calculator \<Rightarrow> addr list \<Rightarrow> real list \<Rightarrow> notebook \<Rightarrow> real list \<times> notebook" where
  "evaluate_loop lib pot [] energies s = (energies, s)"
| "evaluate_loop lib pot (dba # rest) energies s =
     (case copy dba s of
        (a, s1) \<Rightarrow>
          (case get_potential_energy lib a (set_calculator a pot s1) of
             (e, s2) \<Rightarrow> evaluate_loop lib pot rest (energies @ [e]) s2))"

definition gap_energies :: "library \<Rightarrow> calculator \<Rightarrow> notebook \<Rightarrow> real list \<times> notebook" where
  "gap_energies lib pot s = evaluate_loop lib pot (db s) [] s"

text \<open>\<^verbatim>\<open>Natoms = len(db[0])\<close>: indexing an empty list raises \<open>IndexError\<close>.\<close>

definition Natoms :: "notebook \<Rightarrow> error + nat" where
  "Natoms s = (case db s of [] \<Rightarrow> Inl IndexError | dba # _ \<Rightarrow> Inr (len (heap s ! dba)))"

text \<open>
  numpy arithmetic.  A float divided by zero is \<open>inf\<close> or \<open>nan\<close> (with a warning, no
  exception); every operation of the RMSE expression maps a non-finite operand to a
  non-finite result, so the non-finite values are kept as one value \<open>NonFinite\<close>.
\<close>

datatype npfloat = Finite real | NonFinite

definition np_div :: "real \<Rightarrow> nat \<Rightarrow> npfloat" where
  "np_div x n = (if n = 0 then NonFinite else Finite (x / real n))"

fun np_sub :: "npfloat \<Rightarrow> npfloat \<Rightarrow> npfloat" where
  "np_sub (Finite x) (Finite y) = Finite (x - y)"
| "np_sub _ _ = NonFinite"

fun np_add :: "npfloat \<Rightarrow> npfloat \<Rightarrow> npfloat" where
  "np_add (Finite x) (Finite y) = Finite (x + y)"
| "np_add _ _ = NonFinite"

fun np_square :: "npfloat \<Rightarrow> npfloat" where
  "np_square (Finite x) = Finite (x\<^sup>2)"
| "np_square NonFinite = NonFinite"

fun np_div_count :: "npfloat \<Rightarrow> nat \<Rightarrow> npfloat" where
  "np_div_count (Finite x) n = np_div x n"
| "np_div_count NonFinite n = NonFinite"

fun np_sqrt :: "npfloat \<Rightarrow> npfloat" where
  "np_sqrt (Finite x) = (if x < 0 then NonFinite else Finite (sqrt x))"
| "np_sqrt NonFinite = NonFinite"

text \<open>
  An elementwise operation on two one-dimensional arrays: equal lengths, or one of
  them of length one (broadcast); any other pair of shapes raises \<open>ValueError\<close>.
\<close>

definition np_elementwise ::
  "('a \<Rightarrow> 'a \<Rightarrow> 'a) \<Rightarrow> 'a list \<Rightarrow> 'a list \<Rightarrow> error + 'a list" where
  "np_elementwise f xs ys =
     (if length xs = length ys then Inr (map2 f xs ys)
      else if length xs = 1 then Inr (map (f (hd xs)) ys)
      else if length ys = 1 then Inr (map (\<lambda>x. f x (hd ys)) xs)
      else Inl ValueError)"

text \<open>\<^verbatim>\<open>np.array(energies)/Natoms\<close>, the per-atom energies plotted in cell 61.\<close>

definition per_atom :: "real list \<Rightarrow> nat \<Rightarrow> npfloat list" where
  "per_atom energies n = map (\<lambda>e. np_div e n) energies"

text \<open>
  Cell 63 (and 73, 83):
  \<^verbatim>\<open>
  np.sqrt(sum((np.array(qm_energies)/Natoms - np.array(gap2b_energies)/Natoms)**2)
          / len(gap2b_energies))
  \<close>
  Python's \<^verbatim>\<open>sum\<close> of an empty array is the integer 0, and dividing it by a zero length
  raises \<open>ZeroDivisionError\<close>.
\<close>

definition rmse :: "real list \<Rightarrow> real list \<Rightarrow> nat \<Rightarrow> error + npfloat" where
  "rmse qm gap n =
     (case np_elementwise np_sub (per_atom qm n) (per_atom gap n) of
        Inl e \<Rightarrow> Inl e
      | Inr diff \<Rightarrow>
          let squares = map np_square diff
          in if squares = []
             then (if length gap = 0 then Inl ZeroDivisionError else Inr (np_sqrt (Finite 0)))
             else Inr (np_sqrt (np_div_count (foldl np_add (Finite 0) squares) (length gap))))"

text \<open>
  Evaluation/Comparison as the notebook runs it: cell 60 (reference energies, then the
  loop over the database), cell 61 (the atom count and the per-atom energies), cell 63
  (the RMSE).
\<close>

definition per_atom_energies ::
  "library \<Rightarrow> calculator \<Rightarrow> notebook \<Rightarrow> error + (npfloat list \<times> npfloat list)" where
  "per_atom_energies lib pot s =
     (case qm_energies s of
        Inl e \<Rightarrow> Inl e
      | Inr qm \<Rightarrow>
          (case gap_energies lib pot s of
             (gap, s') \<Rightarrow>
               (case Natoms s' of
                  Inl e \<Rightarrow> Inl e
                | Inr n \<Rightarrow> Inr (per_atom qm n, per_atom gap n))))"

definition evaluation_rmse :: "library \<Rightarrow> calculator \<Rightarrow> notebook \<Rightarrow> error + npfloat" where
  "evaluation_rmse lib pot s =
     (case qm_energies s of
        Inl e \<Rightarrow> Inl e
      | Inr qm \<Rightarrow>
          (case gap_energies lib pot s of
             (gap, s') \<Rightarrow>
               (case Natoms s' of
                  Inl e \<Rightarrow> Inl e
                | Inr n \<Rightarrow> rmse qm gap n)))"

section \<open>Using the fitted potential for dynamics\<close>

text \<open>
  Cell 86.  The call of \<^verbatim>\<open>MaxwellBoltzmannDistribution\<close> is commented out in the notebook.
  \<^verbatim>\<open>
  atoms.set_calculator(gap_soap)
  # MaxwellBoltzmannDistribution(atoms, 2.0* T * units.kB)
  dynamics = Langevin(atoms, timestep, T * units.kB, 0.002)
  dynamics.attach(print_status, interval=10)
  dynamics.attach(print_energy, interval=10)
  \<close>
\<close>

definition cell86 :: "library \<Rightarrow> notebook \<Rightarrow> notebook" where
  "cell86 lib s =
     (let s1 = set_calculator (atoms s) (GAP ''gap_2b3bsoap.xml'') s;
          d = Langevin (atoms s1) (timestep lib) (T * units_kB lib) 0.002
      in s1\<lparr>dynamics := attach Print_energy 10 (attach Print_status 10 d)\<rparr>)"

text \<open>\<^verbatim>\<open>dynamics.run(steps=100)\<close>\<close>

definition cell88 :: "library \<Rightarrow> notebook \<Rightarrow> notebook" where
  "cell88 lib s = dynamics_run lib 100 s"

text \<open>
  The state changes of the notebook up to the start of a run, cell by cell.  The
  descriptor cells and the invocations of the fitter do not touch the objects kept in
  the state; the three evaluation loops (cells 60, 71, 81) allocate their copies.
\<close>

definition evaluation_passes :: "library \<Rightarrow> notebook \<Rightarrow> notebook" where
  "evaluation_passes lib s =
     snd (gap_energies lib (GAP ''gap_2b3bsoap.xml'')
       (snd (gap_energies lib (GAP ''gap_3b.xml'')
         (snd (gap_energies lib (GAP ''gap_2b.xml'') s)))))"

definition first_run_start :: "library \<Rightarrow> configuration \<Rightarrow> notebook" where
  "first_run_start lib slab = cell13 lib (start slab)"

definition second_run_start :: "library \<Rightarrow> configuration \<Rightarrow> notebook" where
  "second_run_start lib slab = cell45_attach (cell15 lib (first_run_start lib slab))"

definition validation_run_start :: "library \<Rightarrow> configuration \<Rightarrow> notebook" where
  "validation_run_start lib slab =
     cell86 lib (evaluation_passes lib (cell45 lib (cell15 lib (first_run_start lib slab))))"

text \<open>The live configuration: the object that \<open>atoms\<close> refers to.\<close>

definition live :: "notebook \<Rightarrow> configuration" where
  "live s = heap s ! atoms s"

section \<open>Any sequence of runs and evaluation passes\<close>

text \<open>
  What the notebook does to its state after the database has been created, as a list
  of actions: attaching a callback, \<^verbatim>\<open>dynamics.run(steps)\<close>, an evaluation loop with a
  fitted potential, and the restart of the dynamics with the fitted potential (cell 86).
\<close>

datatype action = Attach callback nat | Run nat | Evaluate calculator | Restart

fun perform :: "library \<Rightarrow> notebook \<Rightarrow> action \<Rightarrow> notebook" where
  "perform lib s (Attach function interval) = s\<lparr>dynamics := attach function interval (dynamics s)\<rparr>"
| "perform lib s (Run steps) = dynamics_run lib steps s"
| "perform lib s (Evaluate pot) = snd (gap_energies lib pot s)"
| "perform lib s Restart = cell86 lib s"

definition perform_all :: "library \<Rightarrow> notebook \<Rightarrow> action list \<Rightarrow> notebook" where
  "perform_all lib s acts = foldl (perform lib) s acts"

text \<open>
  The references of a state are in order: \<open>atoms\<close>, the target of the dynamics and the
  entries of the database are allocated, and no entry of the database is the live
  object.  \<open>keeps s0 s\<close>: the state \<open>s\<close> is in order, its database extends that of \<open>s0\<close>
  at the end, and the objects that \<open>s0\<close> had stored are the same in \<open>s\<close>.
\<close>

definition wf :: "notebook \<Rightarrow> bool" where
  "wf s \<longleftrightarrow>
     atoms s < length (heap s) \<and> target (dynamics s) < length (heap s) \<and>
     (\<forall>r\<in>set (db s). r < length (heap s) \<and> r \<noteq> atoms s \<and> r \<noteq> target (dynamics s))"

definition keeps :: "notebook \<Rightarrow> notebook \<Rightarrow> bool" where
  "keeps s0 s \<longleftrightarrow>
     wf s \<and> (\<exists>ext. db s = db s0 @ ext) \<and> (\<forall>r\<in>set (db s0). heap s ! r = heap s0 ! r)"

text \<open>
  The two energies that the comparison reads for a snapshot: the stored reference
  energy, and the energy that the loop of cell 60 computes on its copy.
\<close>

definition reference_energy :: "notebook \<Rightarrow> addr \<Rightarrow> real" where
  "reference_energy s dba = the (energy (heap s ! dba))"

definition predicted_energy :: "library \<Rightarrow> calculator \<Rightarrow> notebook \<Rightarrow> addr \<Rightarrow> real" where
  "predicted_energy lib pot s dba =
     potential_energy lib (Some pot) ((heap s ! dba)\<lparr>calc := Some pot\<rparr>)"

section \<open>Descriptors\<close>

text \<open>
  Modelled from the spec: the Descriptor Evaluator and the neighbour connectivity
  (\<^verbatim>\<open>Descriptor\<close>, \<^verbatim>\<open>set_cutoff\<close> and \<^verbatim>\<open>calc_connect\<close> of quippy), which are library code
  outside the notebook.  The connectivity maps each atom to the other atoms within the
  cutoff it was computed with.  A descriptor of the pairwise family has one value per
  unordered pair of atoms within its cutoff, the distance of the two atoms; it fails
  with \<open>ConnectivityStale\<close> when the connectivity was computed with a smaller cutoff.
  Separations are distances between the stored positions; periodic images are not part
  of the design document and are not modelled.  An unordered pair is represented by
  the ordered pair \<open>(i, j)\<close> with \<open>i < j\<close>.
\<close>

definition distance :: "vec3 \<Rightarrow> vec3 \<Rightarrow> real" where
  "distance p q =
     (case p of (px, py, pz) \<Rightarrow> case q of (qx, qy, qz) \<Rightarrow>
        sqrt ((px - qx)\<^sup>2 + (py - qy)\<^sup>2 + (pz - qz)\<^sup>2))"

record descriptor =
  order :: nat
  cutoff :: real

text \<open>\<^verbatim>\<open>Descriptor("distance_Nb order=2 cutoff=4.0 n_Z=1 Zs={14}")\<close>\<close>

definition distance_Nb_order2 :: descriptor where
  "distance_Nb_order2 = \<lparr>order = 2, cutoff = 4.0\<rparr>"

record connectivity =
  connect_cutoff :: real
  neighbours :: "nat list list"

definition calc_connect :: "real \<Rightarrow> vec3 list \<Rightarrow> connectivity" where
  "calc_connect c ps =
     \<lparr>connect_cutoff = c,
      neighbours =
        map (\<lambda>i. filter (\<lambda>j. j \<noteq> i \<and> distance (ps ! i) (ps ! j) \<le> c) [0..<length ps])
          [0..<length ps]\<rparr>"

definition pairs_within :: "descriptor \<Rightarrow> vec3 list \<Rightarrow> connectivity \<Rightarrow> error + (nat \<times> nat) list" where
  "pairs_within d ps con =
     (if connect_cutoff con < cutoff d then Inl ConnectivityStale
      else Inr (concat (map (\<lambda>i. map (\<lambda>j. (i, j))
                  (filter (\<lambda>j. i < j \<and> distance (ps ! i) (ps ! j) < cutoff d) (neighbours con ! i)))
                [0..<length ps])))"

definition count :: "descriptor \<Rightarrow> vec3 list \<Rightarrow> connectivity \<Rightarrow> error + nat" where
  "count d ps con = (case pairs_within d ps con of Inl e \<Rightarrow> Inl e | Inr prs \<Rightarrow> Inr (length prs))"

definition calc_descriptor :: "descriptor \<Rightarrow> vec3 list \<Rightarrow> connectivity \<Rightarrow> error + real list" where
  "calc_descriptor d ps con =
     (case pairs_within d ps con of
        Inl e \<Rightarrow> Inl e
      | Inr prs \<Rightarrow> Inr (map (\<lambda>(i, j). distance (ps ! i) (ps ! j)) prs))"

text \<open>
  Modelled from the spec: the permutation structure of a descriptor (\<^verbatim>\<open>n_perm\<close> and
  \<^verbatim>\<open>permutations\<close> of quippy, library code).  A family of order \<open>N\<close> declares the
  permutations of the \<open>N\<close> atoms of a tuple.  The value of the descriptor on a tuple of
  atoms is the list of the distances between its members (one distance for a pair, the
  three sides of the triangle for a triple).
\<close>

fun insert_everywhere :: "'a \<Rightarrow> 'a list \<Rightarrow> 'a list list" where
  "insert_everywhere x [] = [[x]]"
| "insert_everywhere x (y # ys) = (x # y # ys) # map (\<lambda>zs. y # zs) (insert_everywhere x ys)"

fun permutations_list :: "'a list \<Rightarrow> 'a list list" where
  "permutations_list [] = [[]]"
| "permutations_list (x # xs) = concat (map (insert_everywhere x) (permutations_list xs))"

definition permutations :: "descriptor \<Rightarrow> nat list list" where
  "permutations d = permutations_list [0..<order d]"

definition n_perm :: "descriptor \<Rightarrow> nat" where
  "n_perm d = length (permutations d)"

definition permute :: "'a list \<Rightarrow> nat list \<Rightarrow> 'a list" where
  "permute tuple p = map (\<lambda>k. tuple ! k) p"

fun tuple_distances :: "vec3 list \<Rightarrow> real list" where
  "tuple_distances [] = []"
| "tuple_distances (p # rest) = map (distance p) rest @ tuple_distances rest"

definition descriptor_value :: "vec3 list \<Rightarrow> nat list \<Rightarrow> real list" where
  "descriptor_value ps tuple = tuple_distances (map (\<lambda>i. ps ! i) tuple)"

section \<open>Invocations of the potential fitter\<close>

text \<open>
  Cell 51 computes the energy of an isolated atom with the tight-binding oracle:
  \<^verbatim>\<open>
  isolated_atom = aseAtoms("Si", positions=[[0,0,0]])
  isolated_atom.set_calculator(qm_pot)
  E0 = isolated_atom.get_potential_energy()
  \<close>
\<close>

definition isolated_atom :: configuration where
  "isolated_atom =
     \<lparr>numbers = [14], positions = [(0, 0, 0)], momenta = [], cell = (0, 0, 0),
      fixed_mask = [], calc = None, energy = None, momenta_from = Unassigned\<rparr>"

definition E0 :: "library \<Rightarrow> real" where
  "E0 lib = potential_energy lib (Some TB_DFTB) (isolated_atom\<lparr>calc := Some TB_DFTB\<rparr>)"

text \<open>
  The three shell commands \<^verbatim>\<open>!teach_sparse ...\<close> of cells 56, 69 and 79, each as the list
  of its \<^verbatim>\<open>key=value\<close> arguments in the order written (a continuation line and a run
  of blanks are one blank).  The Python variables of the notebook are in scope of such
  a command; the commands are given the value of \<open>E0\<close> and do not use it.
\<close>

type_synonym invocation = "(string \<times> string) list"

definition gap_2b :: string where
  "gap_2b = ''distance_Nb order=2 cutoff=5.0 covariance_type=ARD_SE theta_uniform=1.0 n_sparse=15 delta=1.0''"

definition gap_3b :: string where
  "gap_3b = ''distance_Nb order=3 cutoff=4.0 covariance_type=ARD_SE theta_uniform=1.0 n_sparse=50 delta=0.004''"

definition gap_soap :: string where
  "gap_soap = ''soap cutoff=4.0 covariance_type=dot_product zeta=2 delta=0.016 atom_sigma=0.7 l_max=6 n_max=6 n_sparse=200 sparse_method=cur_points''"

definition cell56 :: "real \<Rightarrow> invocation" where
  "cell56 e0_variable =
     [(''at_file'', ''tmp.xyz''),
      (''gap'', ''{'' @ gap_2b @ ''}''),
      (''e0'', ''-29.716948405885105''),
      (''default_sigma'', ''{0.01 0.5 0.0 0.0}''),
      (''do_copy_at_file'', ''F''),
      (''sparse_separate_file'', ''F''),
      (''gp_file'', ''gap_2b.xml'')]"

definition cell69 :: "real \<Rightarrow> invocation" where
  "cell69 e0_variable =
     [(''at_file'', ''tmp.xyz''),
      (''gap'', ''{'' @ gap_2b @ '': '' @ gap_3b @ ''}''),
      (''e0'', ''-29.716948405885105''),
      (''default_sigma'', ''{0.005 0.5 0.0 0.0}''),
      (''do_copy_at_file'', ''F''),
      (''sparse_separate_file'', ''F''),
      (''gp_file'', ''gap_3b.xml'')]"

definition cell79 :: "real \<Rightarrow> invocation" where
  "cell79 e0_variable =
     [(''at_file'', ''tmp.xyz''),
      (''gap'', ''{'' @ gap_2b @ '': '' @ gap_3b @ '': '' @ gap_soap @ ''}''),
      (''e0'', ''-29.716948405885105''),
      (''default_sigma'', ''{0.001 0.5 0.0 0.0}''),
      (''do_copy_at_file'', ''F''),
      (''sparse_separate_file'', ''F''),
      (''gp_file'', ''gap_2b3bsoap.xml'')]"

definition fitter_invocations :: "library \<Rightarrow> invocation list" where
  "fitter_invocations lib = (let e0_variable = E0 lib in [cell56 e0_variable, cell69 e0_variable, cell79 e0_variable])"

definition argument :: "string \<Rightarrow> invocation \<Rightarrow> string option" where
  "argument key command = map_of command key"

section \<open>Concrete inputs\<close>

text \<open>
  A concrete library, for evaluating the embedding at explicit inputs: the constants
  are those of \<^verbatim>\<open>ase.units\<close>, the oracle returns \<open>-5\<close> per atom, the thermostat draws
  zero momenta and a step of the integrator leaves the configuration as it is.
\<close>

definition toy_library :: library where
  "toy_library =
     \<lparr>units_kB = 0.00008617330337217213,
      units_fs = 0.09822694788464063,
      potential_energy = (\<lambda>c a. - 5 * real (length (positions a))),
      kinetic_energy = (\<lambda>a. 0),
      maxwell_boltzmann = (\<lambda>temp a. map (\<lambda>p. (0, 0, 0)) (positions a)),
      langevin_step = (\<lambda>d a. a)\<rparr>"

text \<open>
  \<open>driven s\<close>: the dynamics object drives the live configuration.  \<open>integrated s\<close>: in
  addition, the momenta of the live configuration were last written by the integrator.
\<close>

definition driven :: "notebook \<Rightarrow> bool" where
  "driven s \<longleftrightarrow> target (dynamics s) = atoms s \<and> atoms s < length (heap s)"

definition integrated :: "notebook \<Rightarrow> bool" where
  "integrated s \<longleftrightarrow> driven s \<and> momenta_from (live s) = Integrated"

text \<open>\<^verbatim>\<open>atoms = build_slab()\<close>, the slab of cell 8 with the default arguments.\<close>

definition default_slab :: configuration where
  "default_slab = projr (build_slab Diamond (1, 2, 2) 10)"

text \<open>
  A database of two snapshots of one atom each, with stored reference energies \<open>-4\<close> and
  \<open>-12\<close>.
\<close>

definition example_database :: notebook where
  "example_database =
     \<lparr>heap = [isolated_atom\<lparr>calc := Some TB_DFTB\<rparr>,
              isolated_atom\<lparr>energy := Some (- 4)\<rparr>,
              isolated_atom\<lparr>energy := Some (- 12)\<rparr>],
      atoms = 0, dynamics = Langevin 0 0 0 0, db = [1, 2], stdout = []\<rparr>"

text \<open>
  The state right after cell 45 has created the empty database and attached
  \<^verbatim>\<open>collect_data\<close>, before any further step, for the concrete library and an isolated atom.
\<close>

definition database_created :: notebook where
  "database_created = cell45_attach (first_run_start toy_library isolated_atom)"

text \<open>
  Registering a list of callbacks, one call of \<^verbatim>\<open>dynamics.attach\<close> after the other in the
  order of the list.
\<close>

definition attach_all :: "(callback \<times> nat) list \<Rightarrow> dynamics_obj \<Rightarrow> dynamics_obj" where
  "attach_all regs d = foldl (\<lambda>d' (function, interval). attach function interval d') d regs"

text \<open>
  \<^verbatim>\<open>dynamics.run(steps)\<close> with a log beside the state: the same loop as \<open>dynamics_run\<close>,
  where every step of the integrator and every invocation of a callback is recorded at
  the moment it is made.
\<close>

definition traced_run :: "library \<Rightarrow> nat \<Rightarrow> notebook \<Rightarrow> notebook \<times> callback event list" where
  "traced_run lib steps s =
     run (\<lambda>k (s', tr). (md_step lib k s', tr @ [Updated k]))
         (\<lambda>f (s', tr). (invoke lib f s', tr @ [Called f]))
         (observers (dynamics s)) (nsteps (dynamics s)) steps (s, [])"

text \<open>
  A dimer as cell 65 builds it,
  \<^verbatim>\<open>aseAtoms("2Si", positions=[[0,0,0], [x, 0,0]])\<close>, and two more concrete databases: one
  whose first snapshot has two atoms and whose second has one, and one whose second
  snapshot has two atoms and a stored energy of zero.  In \<open>silent_library\<close> the oracle
  returns zero.
\<close>

definition dimer :: "real \<Rightarrow> configuration" where
  "dimer x =
     \<lparr>numbers = [14, 14], positions = [(0, 0, 0), (x, 0, 0)], momenta = [], cell = (0, 0, 0),
      fixed_mask = [], calc = None, energy = None, momenta_from = Unassigned\<rparr>"

definition mixed_database :: notebook where
  "mixed_database =
     \<lparr>heap = [isolated_atom\<lparr>calc := Some TB_DFTB\<rparr>,
              (dimer 2)\<lparr>energy := Some (- 4)\<rparr>,
              isolated_atom\<lparr>energy := Some (- 12)\<rparr>],
      atoms = 0, dynamics = Langevin 0 0 0 0, db = [1, 2], stdout = []\<rparr>"

definition zero_energy_database :: notebook where
  "zero_energy_database =
     \<lparr>heap = [isolated_atom\<lparr>calc := Some TB_DFTB\<rparr>,
              isolated_atom\<lparr>energy := Some (- 4)\<rparr>,
              (dimer 2)\<lparr>energy := Some 0\<rparr>],
      atoms = 0, dynamics = Langevin 0 0 0 0, db = [1, 2], stdout = []\<rparr>"

definition silent_library :: library where
  "silent_library = toy_library\<lparr>potential_energy := (\<lambda>c a. 0)\<rparr>"

section \<open>Properties of the run loop\<close>

lemma call_observers_trace:
  "call_observers (\<lambda>f tr. tr @ [Called f]) obs m tr =
     tr @ map (Called \<circ> fst) (filter (\<lambda>(f, k). k dvd m) obs)"
  by (induction obs arbitrary: tr) auto

lemma run_trace_from:
  "run (\<lambda>k tr. tr @ [Updated k]) (\<lambda>f tr. tr @ [Called f]) obs n steps tr =
     tr @ concat (map (\<lambda>m. Updated m # map (Called \<circ> fst) (filter (\<lambda>(f, k). k dvd m) obs))
                    [Suc n..<Suc (n + steps)])"
proof (induction steps arbitrary: n tr)
  case 0
  show ?case by simp
next
  case (Suc steps)
  have "[Suc n..<Suc (n + Suc steps)] = Suc n # [Suc (Suc n)..<Suc (Suc n + steps)]"
    by (simp add: upt_conv_Cons)
  then show ?case
    by (simp add: Suc.IH call_observers_trace del: upt_Suc)
qed

lemma run_invariant:
  assumes "\<And>k s. P s \<Longrightarrow> P (step k s)" and "\<And>f s. P s \<Longrightarrow> P (call f s)" and "P s"
  shows "P (run step call obs n steps s)"
proof -
  have co: "P (call_observers call obs' m s')" if "P s'" for obs' m s'
    using that by (induction obs' arbitrary: s') (auto simp: assms(2))
  show ?thesis using assms(3)
    by (induction steps arbitrary: n s) (auto simp: co assms(1))
qed

lemma call_observers_invariant:
  assumes "\<And>f s. P s \<Longrightarrow> P (call f s)" and "P s"
  shows "P (call_observers call obs m s)"
  using assms(2) by (induction obs arbitrary: s) (auto simp: assms(1))

lemma run_establishes:
  assumes first: "\<And>k s. I s \<Longrightarrow> J (step k s)"
    and later: "\<And>k s. J s \<Longrightarrow> J (step k s)"
    and calls: "\<And>f s. J s \<Longrightarrow> J (call f s)"
    and "I s" and "0 < steps"
  shows "J (run step call obs n steps s)"
proof -
  from \<open>0 < steps\<close> obtain k where k: "steps = Suc k" by (cases steps) auto
  have "J (call_observers call obs (Suc n) (step (Suc n) s))"
    using calls first[OF \<open>I s\<close>] by (rule call_observers_invariant[where P = J and call = call])
  then have "J (run step call obs (Suc n) k (call_observers call obs (Suc n) (step (Suc n) s)))"
    using later calls by (intro run_invariant[where P = J and call = call and step = step]) auto
  then show ?thesis by (simp add: k)
qed

lemma trace_of_run_steps:
  "trace_of_run obs n steps =
     concat (map (\<lambda>m. Updated m # map (Called \<circ> fst) (filter (\<lambda>(f, k). k dvd m) obs))
               [Suc n..<Suc (n + steps)])"
  by (simp add: trace_of_run_def run_trace_from del: upt_Suc)

lemma call_observers_paired:
  "call_observers (\<lambda>f (s, tr). (call f s, tr @ [Called f])) obs m (s, tr) =
     (call_observers call obs m s, call_observers (\<lambda>f tr. tr @ [Called f]) obs m tr)"
  by (induction obs arbitrary: s tr) auto

lemma run_paired:
  "run (\<lambda>k (s, tr). (step k s, tr @ [Updated k])) (\<lambda>f (s, tr). (call f s, tr @ [Called f]))
       obs n steps (s, tr) =
     (run step call obs n steps s,
      run (\<lambda>k tr. tr @ [Updated k]) (\<lambda>f tr. tr @ [Called f]) obs n steps tr)"
  by (induction steps arbitrary: n s tr) (simp_all add: call_observers_paired)

lemma attach_all_observers:
  "observers (attach_all regs d) = observers d @ regs \<and> nsteps (attach_all regs d) = nsteps d"
  unfolding attach_all_def
  by (induction regs arbitrary: d) (auto simp: attach_def)

text \<open>
  C4.  Let callbacks be registered with \<^verbatim>\<open>dynamics.attach\<close>, in the order of the list
  \<open>regs\<close>, on a dynamics object \<open>d\<close>.  A run of \<open>steps\<close> steps then performs, for each
  step number \<open>m\<close> from \<open>nsteps d + 1\<close> to \<open>nsteps d + steps\<close> in turn, the update of
  step \<open>m\<close> and after it one invocation of every registered callback whose interval
  divides \<open>m\<close> and of no other, the callbacks registered earlier on \<open>d\<close> first and
  then those of \<open>regs\<close> in the order of their registration.  The state that this run
  leaves is the state that \<open>dynamics_run\<close> leaves.
\<close>

theorem run_calls_registered_observers_in_order:
  "traced_run lib steps (s\<lparr>dynamics := attach_all regs d\<rparr>) =
     (dynamics_run lib steps (s\<lparr>dynamics := attach_all regs d\<rparr>),
      concat (map (\<lambda>m. Updated m #
                        map (Called \<circ> fst) (filter (\<lambda>(f, k). k dvd m) (observers d @ regs)))
                [Suc (nsteps d)..<Suc (nsteps d + steps)]))"
  by (simp add: traced_run_def dynamics_run_def run_paired run_trace_from attach_all_observers
        del: upt_Suc)

lemma first_run_start_registrations:
  "\<exists>s d. first_run_start lib slab = s\<lparr>dynamics := attach_all [(Print_status, 10), (Print_energy, 1)] d\<rparr>
      \<and> observers d = [] \<and> nsteps d = 0"
  apply (rule exI[where x = "first_run_start lib slab"])
  apply (rule exI[where x = "Langevin 0 (timestep lib) (T * units_kB lib) 0.002"])
  apply (simp add: first_run_start_def cell13_def start_def Let_def attach_all_def Langevin_def
      set_calculator_def MaxwellBoltzmannDistribution_def)
  done

theorem run_trace_of_cell15_witness:
  "snd (traced_run toy_library 10 (first_run_start toy_library isolated_atom)) =
     [Updated 1, Called Print_energy, Updated 2, Called Print_energy,
      Updated 3, Called Print_energy, Updated 4, Called Print_energy,
      Updated 5, Called Print_energy, Updated 6, Called Print_energy,
      Updated 7, Called Print_energy, Updated 8, Called Print_energy,
      Updated 9, Called Print_energy,
      Updated 10, Called Print_status, Called Print_energy]"
proof -
  from first_run_start_registrations[of toy_library isolated_atom]
  obtain s d where sd: "first_run_start toy_library isolated_atom =
        s\<lparr>dynamics := attach_all [(Print_status, 10), (Print_energy, 1)] d\<rparr>"
    "observers d = []" "nsteps d = 0"
    by blast
  have u: "[Suc 0..<11] = [1, 2, 3, 4, 5, 6, 7, 8, 9, 10]"
    by (simp add: upt_conv_Cons)
  show ?thesis
    unfolding sd(1)
    by (simp add: run_calls_registered_observers_in_order sd(2,3) u del: upt_Suc)
qed

section \<open>Properties of the structure builder\<close>

lemma np_min_Inr: "np_min xs = Inr b \<Longrightarrow> xs \<noteq> [] \<and> b = Min (set xs)"
  by (auto simp: np_min_def min_list_Min split: if_splits)

lemma build_slab_Inr:
  assumes "build_slab gen sz vacuum = Inr slab"
  shows "\<exists>lat. gen 5.44 sz = Inr lat \<and> positions lat \<noteq> [] \<and>
    slab = add_vacuum (lat\<lparr>fixed_mask :=
      map (\<lambda>p. \<bar>z_of p - Min (z_of ` set (positions lat))\<bar> < 2) (positions lat)\<rparr>) vacuum"
  using assms
  by (auto simp: build_slab_def Let_def split: sum.splits dest!: np_min_Inr)

lemma positions_add_vacuum [simp]: "positions (add_vacuum a v) = positions a"
  by (auto simp: add_vacuum_def split: prod.splits)

lemma fixed_mask_add_vacuum [simp]: "fixed_mask (add_vacuum a v) = fixed_mask a"
  by (auto simp: add_vacuum_def split: prod.splits)

lemma build_slab_on_lattice:
  assumes "gen 5.44 sz = Inr lat" and "positions lat \<noteq> []"
  shows "build_slab gen sz vacuum =
           Inr (add_vacuum (lat\<lparr>fixed_mask :=
             map (\<lambda>p. \<bar>z_of p - min_list (map z_of (positions lat))\<bar> < 2) (positions lat)\<rparr>) vacuum)"
  using assms by (simp add: build_slab_def np_min_def Let_def)

lemma Diamond_default:
  "\<exists>lat. Diamond 5.44 (1, 2, 2) = Inr lat \<and> length (positions lat) = 32 \<and>
         cell lat = (5.44, 10.88, 10.88) \<and> z_of (positions lat ! 0) = 0 \<and>
         z_of (positions lat ! 2) = 2.72 \<and> min_list (map z_of (positions lat)) = 0"
  by (simp add: Diamond_def diamond_basis_def upt_conv_Cons z_of_def)

lemma default_slab_built:
  "build_slab Diamond (1, 2, 2) 10 = Inr default_slab \<and> len default_slab = 32 \<and>
   z_of (positions default_slab ! 0) = 0 \<and> z_of (positions default_slab ! 2) = 2.72"
proof -
  from Diamond_default obtain lat where lat: "Diamond 5.44 (1, 2, 2) = Inr lat"
    "length (positions lat) = 32" "z_of (positions lat ! 0) = 0" "z_of (positions lat ! 2) = 2.72"
    by blast
  then have ne: "positions lat \<noteq> []" by auto
  show ?thesis
    using lat by (simp add: default_slab_def build_slab_on_lattice[where gen = Diamond and sz = "(1, 2, 2)", OF lat(1) ne] len_def)
qed

text \<open>
  C5.  In every configuration that \<open>build_slab\<close> returns, the constraint mask has one
  entry per atom, and an atom is marked fixed exactly when its z coordinate is less
  than \<open>2.0\<close> away from the smallest z coordinate of the configuration.
\<close>

theorem build_slab_fixed_iff_bottom_band:
  assumes "build_slab gen sz vacuum = Inr slab" and "i < len slab"
  shows "length (fixed_mask slab) = len slab \<and>
         (fixed_mask slab ! i \<longleftrightarrow>
            \<bar>z_of (positions slab ! i) - Min (z_of ` set (positions slab))\<bar> < 2)"
  using build_slab_Inr[OF assms(1)] assms(2) by (auto simp: len_def)

theorem build_slab_fixed_witness:
  "build_slab Diamond (1, 2, 2) 10 = Inr default_slab \<and> len default_slab = 32 \<and>
   fixed_mask default_slab ! 0 \<and> \<not> fixed_mask default_slab ! 2"
proof -
  note b = default_slab_built
  have m: "Min (z_of ` set (positions default_slab)) = 0"
  proof -
    from Diamond_default obtain lat where lat: "Diamond 5.44 (1, 2, 2) = Inr lat"
      "length (positions lat) = 32" "min_list (map z_of (positions lat)) = 0"
      by blast
    then have ne: "positions lat \<noteq> []" by auto
    have "positions default_slab = positions lat"
      by (simp add: default_slab_def build_slab_on_lattice[where gen = Diamond and sz = "(1, 2, 2)", OF lat(1) ne])
    with lat(3) ne show ?thesis by (simp add: min_list_Min)
  qed
  from b have i0: "0 < len default_slab" and i2: "2 < len default_slab" by simp_all
  from build_slab_fixed_iff_bottom_band[OF conjunct1[OF b] i0]
       build_slab_fixed_iff_bottom_band[OF conjunct1[OF b] i2] b m
  show ?thesis by simp
qed

text \<open>
  C6, amended.  \<open>build_slab\<close> checks neither the size nor the vacuum and raises no
  \<open>InvalidGeometry\<close> of its own.  Whenever the lattice generator returns a lattice with
  atoms, it returns a configuration for every value of the vacuum, zero and negative
  ones included: the positions of the lattice, and its cell with the vacuum added to
  the z length.  It fails only with the error of the generator, or with \<open>ValueError\<close>
  (the minimum of an empty array) when the lattice has no atoms.
\<close>

theorem build_slab_without_validation:
  "(gen 5.44 sz = Inr lat \<longrightarrow> positions lat \<noteq> [] \<longrightarrow>
      \<not> isl (build_slab gen sz vacuum) \<and>
      positions (projr (build_slab gen sz vacuum)) = positions lat \<and>
      cell (projr (build_slab gen sz vacuum)) =
        (fst (cell lat), fst (snd (cell lat)), snd (snd (cell lat)) + vacuum)) \<and>
   (gen 5.44 sz = Inr lat \<longrightarrow> positions lat = [] \<longrightarrow> build_slab gen sz vacuum = Inl ValueError) \<and>
   (gen 5.44 sz = Inl e \<longrightarrow> build_slab gen sz vacuum = Inl e)"
  by (auto simp: build_slab_def np_min_def Let_def add_vacuum_def split: prod.splits)

theorem build_slab_without_validation_witness:
  "\<not> isl (build_slab Diamond (1, 2, 2) (- 1)) \<and>
   length (positions (projr (build_slab Diamond (1, 2, 2) (- 1)))) = 32 \<and>
   cell (projr (build_slab Diamond (1, 2, 2) (- 1))) = (5.44, 10.88, 9.88) \<and>
   build_slab Diamond (0, 2, 2) 10 = Inl ValueError"
proof -
  from Diamond_default obtain lat where lat: "Diamond 5.44 (1, 2, 2) = Inr lat"
    "length (positions lat) = 32" "cell lat = (5.44, 10.88, 10.88)"
    by blast
  then have ne: "positions lat \<noteq> []" by auto
  have err: "Diamond 5.44 (0, 2, 2) = Inl ValueError"
    by (simp add: Diamond_def)
  from build_slab_without_validation[of Diamond "(1, 2, 2)" lat "- 1"]
       build_slab_without_validation[of Diamond "(0, 2, 2)" lat 10 ValueError] lat ne err
  show ?thesis by simp
qed

theorem build_slab_nonpositive_vacuum_counterexample:
  "\<not> isl (build_slab Diamond (1, 2, 2) 0) \<and> \<not> isl (build_slab Diamond (1, 2, 2) (- 1))"
proof -
  from Diamond_default obtain lat where lat: "Diamond 5.44 (1, 2, 2) = Inr lat"
    "length (positions lat) = 32"
    by blast
  then have ne: "positions lat \<noteq> []" by auto
  show ?thesis
    by (simp add: build_slab_on_lattice[where gen = Diamond and sz = "(1, 2, 2)", OF lat(1) ne])
qed

section \<open>Stored snapshots are not touched\<close>

lemma keeps_refl: "wf s \<Longrightarrow> keeps s s"
  by (simp add: keeps_def)

lemma keeps_update:
  assumes "keeps s0 s" and "a = atoms s \<or> a = target (dynamics s)"
  shows "keeps s0 (s\<lparr>heap := (heap s)[a := c]\<rparr>)"
proof -
  have "(heap s)[a := c] ! r = heap s0 ! r" if "r \<in> set (db s0)" for r
  proof -
    from assms(1) that have "r \<in> set (db s)" and "heap s ! r = heap s0 ! r"
      by (auto simp: keeps_def)
    with assms have "r \<noteq> a" by (auto simp: keeps_def wf_def)
    then show ?thesis using \<open>heap s ! r = heap s0 ! r\<close> by simp
  qed
  with assms(1) show ?thesis by (simp add: keeps_def wf_def)
qed

lemma keeps_alloc:
  assumes "keeps s0 s"
  shows "keeps s0 (s\<lparr>heap := heap s @ [c]\<rparr>)"
proof -
  have "(heap s @ [c]) ! r = heap s0 ! r" if "r \<in> set (db s0)" for r
  proof -
    from assms that have "r < length (heap s)" and "heap s ! r = heap s0 ! r"
      by (auto simp: keeps_def wf_def)
    then show ?thesis by (simp add: nth_append)
  qed
  with assms show ?thesis by (auto simp: keeps_def wf_def)
qed
lemma keeps_other:
  assumes "keeps s0 s" and "heap s' = heap s" and "atoms s' = atoms s" and "db s' = db s"
    and "target (dynamics s') = target (dynamics s)"
  shows "keeps s0 s'"
  using assms by (simp add: keeps_def wf_def)

lemma keeps_md_step: "keeps s0 s \<Longrightarrow> keeps s0 (md_step lib k s)"
  unfolding md_step_def Let_def
  by (rule keeps_other[OF keeps_update[where a = "target (dynamics s)"]]) simp_all

lemma keeps_print_status: "keeps s0 s \<Longrightarrow> keeps s0 (print_status lib s)"
  unfolding print_status_def by (erule keeps_other) simp_all

lemma keeps_print_energy: "keeps s0 s \<Longrightarrow> keeps s0 (print_energy lib s)"
  unfolding print_energy_def get_potential_energy_def Let_def prod.case
  by (rule keeps_other[OF keeps_update[where a = "atoms s"]]) simp_all

lemma keeps_collect_data:
  assumes "keeps s0 s"
  shows "keeps s0 (collect_data s)"
proof -
  have k: "keeps s0 (s\<lparr>heap := heap s @ [heap s ! atoms s]\<rparr>)"
    by (rule keeps_alloc[OF assms])
  with assms show ?thesis
    by (auto simp: collect_data_def copy_def keeps_def wf_def)
qed

lemma keeps_invoke: "keeps s0 s \<Longrightarrow> keeps s0 (invoke lib f s)"
  by (cases f) (simp_all add: keeps_print_status keeps_print_energy keeps_collect_data)

lemma keeps_dynamics_run:
  assumes "keeps s0 s"
  shows "keeps s0 (dynamics_run lib steps s)"
  unfolding dynamics_run_def
  by (rule run_invariant[where P = "keeps s0", OF keeps_md_step keeps_invoke assms])

lemma keeps_evaluate_step:
  assumes "keeps s0 s"
  shows "keeps s0 (snd (get_potential_energy lib (fst (copy dba s))
            (set_calculator (fst (copy dba s)) pot (snd (copy dba s)))))"
proof -
  let ?h = "heap s @ [heap s ! dba]"
  let ?n = "length (heap s)"
  have "(?h[?n := c])[?n := c'] = heap s @ [c']" for c c'
    by (simp add: list_update_append)
  then have "\<exists>c'. heap (snd (get_potential_energy lib (fst (copy dba s))
            (set_calculator (fst (copy dba s)) pot (snd (copy dba s))))) = heap s @ [c']"
    by (simp add: copy_def set_calculator_def get_potential_energy_def Let_def)
  then obtain c' where h: "heap (snd (get_potential_energy lib (fst (copy dba s))
            (set_calculator (fst (copy dba s)) pot (snd (copy dba s))))) = heap s @ [c']" ..
  show ?thesis
    by (rule keeps_other[OF keeps_alloc[OF assms, of c']])
       (simp_all add: h, simp_all add: copy_def set_calculator_def get_potential_energy_def Let_def)
qed

lemma keeps_evaluate_loop: "keeps s0 s \<Longrightarrow> keeps s0 (snd (evaluate_loop lib pot rs es s))"
proof (induction rs arbitrary: es s)
  case Nil
  then show ?case by simp
next
  case (Cons dba rs)
  from Cons.IH[OF keeps_evaluate_step[OF Cons.prems]] show ?case
    by (simp add: split_beta)
qed

lemma keeps_cell86:
  assumes "keeps s0 s"
  shows "keeps s0 (cell86 lib s)"
proof -
  have k: "keeps s0 (s\<lparr>heap := (heap s)[atoms s := c]\<rparr>)" for c
    by (rule keeps_update[OF assms]) simp
  show ?thesis
    using k[of "(heap s ! atoms s)\<lparr>calc := Some (GAP ''gap_2b3bsoap.xml'')\<rparr>"]
    by (auto simp: keeps_def wf_def cell86_def set_calculator_def Let_def attach_def Langevin_def)
qed

lemma keeps_attach: "keeps s0 s \<Longrightarrow> keeps s0 (s\<lparr>dynamics := attach f k (dynamics s)\<rparr>)"
  by (erule keeps_other) (simp_all add: attach_def)

lemma keeps_perform: "keeps s0 s \<Longrightarrow> keeps s0 (perform lib s a)"
  by (cases a) (simp_all add: keeps_attach keeps_dynamics_run keeps_cell86 gap_energies_def keeps_evaluate_loop)

lemma keeps_perform_all: "keeps s0 s \<Longrightarrow> keeps s0 (perform_all lib s acts)"
  unfolding perform_all_def
  by (induction acts arbitrary: s) (simp_all add: keeps_perform)

lemma driven_wf: "db s = [] \<Longrightarrow> driven s \<Longrightarrow> wf s"
  by (simp add: wf_def driven_def)

text \<open>
  C2.  From the creation of the empty database on, let the notebook perform any actions
  (state \<open>s1\<close>) and then any further actions (state \<open>s2\<close>): runs of the dynamics,
  evaluation passes, new callbacks, the restart with the fitted potential.  Then the
  database of \<open>s2\<close> is that of \<open>s1\<close> with entries added at the end, every snapshot
  stored in \<open>s1\<close> is an object other than the live configuration and is the same
  object content in \<open>s2\<close> (species, positions and cell included), and an append stores
  a new object whose content is that of the live configuration.
\<close>

theorem stored_snapshots_are_independent:
  assumes "db s0 = []" and "driven s0"
    and "s1 = perform_all lib s0 before" and "s2 = perform_all lib s1 after"
  shows "(\<exists>ext. db s2 = db s1 @ ext) \<and>
         (\<forall>r\<in>set (db s1). r \<noteq> atoms s2 \<and> heap s2 ! r = heap s1 ! r) \<and>
         db (collect_data s2) = db s2 @ [length (heap s2)] \<and>
         length (heap s2) \<noteq> atoms s2 \<and>
         heap (collect_data s2) ! length (heap s2) = live s2"
proof -
  have "wf s0" using assms(1,2) by (rule driven_wf)
  then have "keeps s0 s1" unfolding assms(3) by (intro keeps_perform_all keeps_refl)
  then have "wf s1" by (simp add: keeps_def)
  then have k: "keeps s1 s2" unfolding assms(4) by (intro keeps_perform_all keeps_refl)
  then have ext: "\<exists>ext. db s2 = db s1 @ ext"
    and same: "\<forall>r\<in>set (db s1). heap s2 ! r = heap s1 ! r"
    and wf2: "wf s2"
    by (simp_all add: keeps_def)
  from ext wf2 have "\<forall>r\<in>set (db s1). r \<noteq> atoms s2" by (auto simp: wf_def)
  moreover from wf2 have "length (heap s2) \<noteq> atoms s2" by (simp add: wf_def)
  moreover have "db (collect_data s2) = db s2 @ [length (heap s2)]"
    and "heap (collect_data s2) ! length (heap s2) = live s2"
    by (simp_all add: collect_data_def copy_def live_def)
  ultimately show ?thesis using ext same by blast
qed

lemma database_created_state: "db database_created = [] \<and> driven database_created"
  by (simp add: database_created_def cell45_attach_def first_run_start_def cell13_def start_def
     Let_def attach_def Langevin_def set_calculator_def MaxwellBoltzmannDistribution_def driven_def)

lemma database_after_two_steps:
  "db (perform_all toy_library database_created [Attach Collect_data 1, Run 2]) = [1, 2]"
  by code_simp

lemma database_after_evaluation:
  "db (perform_all toy_library
         (perform_all toy_library database_created [Attach Collect_data 1, Run 2])
         [Evaluate (GAP ''gap_2b.xml''), Run 1]) = [1, 2, 5]"
  by code_simp

theorem stored_snapshots_witness:
  "db database_created = [] \<and>
   db (perform_all toy_library database_created [Attach Collect_data 1, Run 2]) = [1, 2] \<and>
   db (perform_all toy_library
         (perform_all toy_library database_created [Attach Collect_data 1, Run 2])
         [Evaluate (GAP ''gap_2b.xml''), Run 1]) = [1, 2] @ [5] \<and>
   heap (perform_all toy_library
         (perform_all toy_library database_created [Attach Collect_data 1, Run 2])
         [Evaluate (GAP ''gap_2b.xml''), Run 1]) ! 2 =
     heap (perform_all toy_library database_created [Attach Collect_data 1, Run 2]) ! 2"
  using stored_snapshots_are_independent[OF conjunct1[OF database_created_state]
          conjunct2[OF database_created_state] refl refl,
          of toy_library "[Attach Collect_data 1, Run 2]" "[Evaluate (GAP ''gap_2b.xml''), Run 1]"]
    database_created_state database_after_two_steps database_after_evaluation
  by simp

section \<open>Properties of the comparison of energies\<close>

lemma evaluate_step_heap:
  "heap (snd (get_potential_energy lib (fst (copy dba s))
            (set_calculator (fst (copy dba s)) pot (snd (copy dba s))))) =
   heap s @ [(heap s ! dba)\<lparr>calc := Some pot,
        energy := Some (potential_energy lib (Some pot) ((heap s ! dba)\<lparr>calc := Some pot\<rparr>))\<rparr>]"
  by (simp add: copy_def set_calculator_def get_potential_energy_def Let_def list_update_append)

lemma evaluate_step_value:
  "fst (get_potential_energy lib (fst (copy dba s))
            (set_calculator (fst (copy dba s)) pot (snd (copy dba s)))) =
   predicted_energy lib pot s dba"
  by (simp add: copy_def set_calculator_def get_potential_energy_def Let_def predicted_energy_def)

lemma evaluate_step_rest:
  "db (snd (get_potential_energy lib (fst (copy dba s))
            (set_calculator (fst (copy dba s)) pot (snd (copy dba s))))) = db s"
  by (simp add: copy_def set_calculator_def get_potential_energy_def Let_def)

lemma evaluate_loop_result:
  assumes "\<forall>r\<in>set rs. r < length (heap s)"
  shows "fst (evaluate_loop lib pot rs es s) = es @ map (predicted_energy lib pot s) rs \<and>
         db (snd (evaluate_loop lib pot rs es s)) = db s \<and>
         length (heap s) \<le> length (heap (snd (evaluate_loop lib pot rs es s))) \<and>
         (\<forall>r<length (heap s). heap (snd (evaluate_loop lib pot rs es s)) ! r = heap s ! r)"
  using assms
proof (induction rs arbitrary: es s)
  case Nil
  then show ?case by simp
next
  case (Cons dba rs)
  let ?s2 = "snd (get_potential_energy lib (fst (copy dba s))
            (set_calculator (fst (copy dba s)) pot (snd (copy dba s))))"
  let ?e = "fst (get_potential_energy lib (fst (copy dba s))
            (set_calculator (fst (copy dba s)) pot (snd (copy dba s))))"
  have h: "heap ?s2 = heap s @ [(heap s ! dba)\<lparr>calc := Some pot,
        energy := Some (potential_energy lib (Some pot) ((heap s ! dba)\<lparr>calc := Some pot\<rparr>))\<rparr>]"
    by (rule evaluate_step_heap)
  have old: "heap ?s2 ! r = heap s ! r" if "r < length (heap s)" for r
    using that by (simp add: h nth_append)
  have valid: "\<forall>r\<in>set rs. r < length (heap ?s2)"
    using Cons.prems by (auto simp: h)
  have same: "map (predicted_energy lib pot ?s2) rs = map (predicted_energy lib pot s) rs"
    using Cons.prems by (auto simp: predicted_energy_def old)
  have unfold: "evaluate_loop lib pot (dba # rs) es s = evaluate_loop lib pot rs (es @ [?e]) ?s2"
    by (simp add: split_beta)
  have len2: "length (heap ?s2) = Suc (length (heap s))"
    by (simp add: h)
  note IH = Cons.IH[OF valid, of "es @ [?e]", folded unfold]
  have "fst (evaluate_loop lib pot (dba # rs) es s) =
          es @ map (predicted_energy lib pot s) (dba # rs)"
    using IH by (simp only: same evaluate_step_value) simp
  moreover have "db (snd (evaluate_loop lib pot (dba # rs) es s)) = db s"
    using IH by (simp only: evaluate_step_rest)
  moreover have "length (heap s) \<le> length (heap (snd (evaluate_loop lib pot (dba # rs) es s)))"
    using IH len2 by linarith
  moreover have "heap (snd (evaluate_loop lib pot (dba # rs) es s)) ! r = heap s ! r"
    if "r < length (heap s)" for r
  proof -
    from that have "r < length (heap ?s2)" by (simp add: len2)
    with IH have "heap (snd (evaluate_loop lib pot (dba # rs) es s)) ! r = heap ?s2 ! r"
      by blast
    then show ?thesis by (simp only: old[OF that])
  qed
  ultimately show ?case by blast
qed

lemma energy_attrs_Inr:
  "\<forall>c\<in>set cs. energy c \<noteq> None \<Longrightarrow> energy_attrs cs = Inr (map (\<lambda>c. the (energy c)) cs)"
  by (induction cs) auto

lemma qm_energies_Inr:
  "\<forall>r\<in>set (db s). energy (heap s ! r) \<noteq> None \<Longrightarrow>
   qm_energies s = Inr (map (reference_energy s) (db s))"
  by (simp add: qm_energies_def energy_attrs_Inr reference_energy_def comp_def)

lemma foldl_np_add:
  "foldl np_add (Finite a) (map Finite xs) = Finite (a + sum_list xs)"
  by (induction xs arbitrary: a) (auto simp: add.assoc)

lemma squares_finite:
  assumes "0 < n" and "length qm = length gap"
  shows "map np_square (map2 np_sub (per_atom qm n) (per_atom gap n)) =
         map Finite (map2 (\<lambda>q g. (q / real n - g / real n)\<^sup>2) qm gap)"
  using assms(2,1)
  by (induction qm gap rule: list_induct2) (auto simp: per_atom_def np_div_def)

lemma rmse_finite:
  assumes "0 < n" and "length qm = length gap" and "gap \<noteq> []"
  shows "rmse qm gap n =
         Inr (Finite (sqrt (sum_list (map2 (\<lambda>q g. (q / real n - g / real n)\<^sup>2) qm gap)
                            / real (length gap))))"
proof -
  have len: "length (per_atom qm n) = length (per_atom gap n)"
    using assms(2) by (simp add: per_atom_def)
  have nonneg: "0 \<le> sum_list (map2 (\<lambda>q g. (q / real n - g / real n)\<^sup>2) qm gap)"
    by (rule sum_list_nonneg) auto
  have ne: "map2 (\<lambda>q g. (q / real n - g / real n)\<^sup>2) qm gap \<noteq> []"
    using assms(2,3) by (cases qm; cases gap) auto
  show ?thesis
    using assms(3) nonneg ne
    by (simp add: rmse_def np_elementwise_def len Let_def squares_finite[OF assms(1,2)]
          foldl_np_add np_div_def not_less divide_nonneg_nonneg del: map_map)
qed

lemma gap_energies_result:
  assumes "\<forall>r\<in>set (db s). r < length (heap s)"
  shows "fst (gap_energies lib pot s) = map (predicted_energy lib pot s) (db s)"
    and "db (snd (gap_energies lib pot s)) = db s"
    and "\<And>r. r < length (heap s) \<Longrightarrow> heap (snd (gap_energies lib pot s)) ! r = heap s ! r"
  using evaluate_loop_result[OF assms, of lib pot "[]"] by (simp_all add: gap_energies_def)

lemma Natoms_after_loop:
  assumes "\<forall>r\<in>set (db s). r < length (heap s)"
  shows "Natoms (snd (gap_energies lib pot s)) = Natoms s"
proof (cases "db s")
  case Nil
  then show ?thesis
    by (simp add: Natoms_def gap_energies_result(2)[OF assms])
next
  case (Cons dba rest)
  with assms have "dba < length (heap s)" by simp
  then have "heap (snd (gap_energies lib pot s)) ! dba = heap s ! dba"
    by (rule gap_energies_result(3)[OF assms])
  with Cons show ?thesis
    by (simp add: Natoms_def gap_energies_result(2)[OF assms])
qed

lemma map2_same: "map2 f (map g xs) (map h xs) = map (\<lambda>x. f (g x) (h x)) xs"
  by (induction xs) auto

lemma sqrt25: "sqrt 25 = 5"
  using real_sqrt_abs[of 5] by simp

text \<open>
  C1, amended.  On an empty database the comparison raises \<open>IndexError\<close> (from
  \<^verbatim>\<open>db[0]\<close>), so it produces no value at all.  On a database that is not empty, whose
  snapshots carry a stored energy and whose first snapshot has \<open>N > 0\<close> atoms, it
  divides every reference and every predicted energy by \<open>N\<close> and returns the root of
  the mean of the squared differences.
\<close>

theorem evaluation_rmse_result:
  "(db s = [] \<longrightarrow> evaluation_rmse lib pot s = Inl IndexError) \<and>
   (db s \<noteq> [] \<longrightarrow> (\<forall>r\<in>set (db s). r < length (heap s) \<and> energy (heap s ! r) \<noteq> None) \<longrightarrow>
      0 < len (heap s ! hd (db s)) \<longrightarrow>
      evaluation_rmse lib pot s =
        Inr (Finite (sqrt ((\<Sum>dba\<leftarrow>db s.
                (reference_energy s dba / real (len (heap s ! hd (db s)))
                 - predicted_energy lib pot s dba / real (len (heap s ! hd (db s))))\<^sup>2)
              / real (length (db s))))))"
proof (intro conjI impI)
  assume "db s = []"
  then show "evaluation_rmse lib pot s = Inl IndexError"
    by (simp add: evaluation_rmse_def qm_energies_def gap_energies_def Natoms_def)
next
  assume ne: "db s \<noteq> []"
    and ok: "\<forall>r\<in>set (db s). r < length (heap s) \<and> energy (heap s ! r) \<noteq> None"
    and pos: "0 < len (heap s ! hd (db s))"
  let ?n = "len (heap s ! hd (db s))"
  from ok have valid: "\<forall>r\<in>set (db s). r < length (heap s)" by blast
  from ok have qm: "qm_energies s = Inr (map (reference_energy s) (db s))"
    by (simp add: qm_energies_Inr)
  have n: "Natoms (snd (gap_energies lib pot s)) = Inr ?n"
  proof -
    have "Natoms s = Inr ?n"
      using ne by (cases "db s") (simp_all add: Natoms_def)
    then show ?thesis by (simp only: Natoms_after_loop[OF valid])
  qed
  have "evaluation_rmse lib pot s =
          rmse (map (reference_energy s) (db s)) (map (predicted_energy lib pot s) (db s)) ?n"
    by (simp add: evaluation_rmse_def qm split_beta n gap_energies_result(1)[OF valid])
  also have "\<dots> = Inr (Finite (sqrt (sum_list (map2 (\<lambda>q g. (q / real ?n - g / real ?n)\<^sup>2)
                (map (reference_energy s) (db s)) (map (predicted_energy lib pot s) (db s)))
                            / real (length (map (predicted_energy lib pot s) (db s))))))"
    by (rule rmse_finite[OF pos]) (simp_all add: ne)
  finally show "evaluation_rmse lib pot s =
        Inr (Finite (sqrt ((\<Sum>dba\<leftarrow>db s.
                (reference_energy s dba / real ?n - predicted_energy lib pot s dba / real ?n)\<^sup>2)
              / real (length (db s)))))"
    by (simp add: map2_same)
qed



theorem evaluation_rmse_witness:
  "db example_database = [1, 2] \<and>
   evaluation_rmse toy_library (GAP ''gap_2b.xml'') example_database = Inr (Finite 5)"
  using evaluation_rmse_result[of example_database toy_library "GAP ''gap_2b.xml''"] sqrt25
  by (simp add: example_database_def isolated_atom_def len_def reference_energy_def
        predicted_energy_def toy_library_def)

theorem evaluation_rmse_empty_counterexample:
  "evaluation_rmse toy_library (GAP ''gap_2b.xml'')
     (cell45_attach (first_run_start toy_library isolated_atom)) = Inl IndexError \<and>
   evaluation_rmse toy_library (GAP ''gap_2b.xml'')
     (cell45_attach (first_run_start toy_library isolated_atom)) \<noteq> Inl InsufficientData"
  by (simp add: evaluation_rmse_def qm_energies_def gap_energies_def Natoms_def cell45_attach_def Let_def)

lemma per_atom_energies_Inr:
  assumes ne: "db s \<noteq> []"
    and ok: "\<forall>r\<in>set (db s). r < length (heap s) \<and> energy (heap s ! r) \<noteq> None"
  shows "per_atom_energies lib pot s =
           Inr (map (\<lambda>dba. np_div (reference_energy s dba) (len (heap s ! hd (db s)))) (db s),
                map (\<lambda>dba. np_div (predicted_energy lib pot s dba) (len (heap s ! hd (db s)))) (db s))"
proof -
  let ?n = "len (heap s ! hd (db s))"
  from ok have valid: "\<forall>r\<in>set (db s). r < length (heap s)" by blast
  from ok have qm: "qm_energies s = Inr (map (reference_energy s) (db s))"
    by (simp add: qm_energies_Inr)
  have n: "Natoms (snd (gap_energies lib pot s)) = Inr ?n"
  proof -
    have "Natoms s = Inr ?n"
      using ne by (cases "db s") (simp_all add: Natoms_def)
    then show ?thesis by (simp only: Natoms_after_loop[OF valid])
  qed
  show ?thesis
    by (simp add: per_atom_energies_def qm split_beta n gap_energies_result(1)[OF valid]
          per_atom_def comp_def)
qed

lemma np_div_same_count:
  assumes "e \<noteq> 0" and "np_div e n = np_div e m"
  shows "n = m"
proof (cases "n = 0 \<or> m = 0")
  case True
  with assms(2) show ?thesis by (auto simp: np_div_def split: if_splits)
next
  case False
  with assms(2) have "e / real n = e / real m" by (simp add: np_div_def)
  with assms(1) False show ?thesis by (simp add: field_simps)
qed

text \<open>
  C9, amended.  On an empty database the per-atom energies are not computed: \<^verbatim>\<open>db[0]\<close>
  raises \<open>IndexError\<close>.  Otherwise every reference and every predicted energy is
  divided by the atom count of the first stored snapshot.  For a snapshot with that
  same atom count this is the division by its own atom count; for a snapshot whose
  energy is not zero it is the division by its own atom count only if the two counts
  are equal.  (An energy of zero is normalised to the same value by any two positive
  counts.)
\<close>

theorem per_atom_energies_use_first_count:
  "(db s = [] \<longrightarrow> per_atom_energies lib pot s = Inl IndexError) \<and>
   (db s \<noteq> [] \<longrightarrow> (\<forall>r\<in>set (db s). r < length (heap s) \<and> energy (heap s ! r) \<noteq> None) \<longrightarrow>
      per_atom_energies lib pot s =
        Inr (map (\<lambda>dba. np_div (reference_energy s dba) (len (heap s ! hd (db s)))) (db s),
             map (\<lambda>dba. np_div (predicted_energy lib pot s dba) (len (heap s ! hd (db s)))) (db s)) \<and>
      (\<forall>dba\<in>set (db s). len (heap s ! dba) = len (heap s ! hd (db s)) \<longrightarrow>
         np_div (reference_energy s dba) (len (heap s ! hd (db s))) =
           np_div (reference_energy s dba) (len (heap s ! dba)) \<and>
         np_div (predicted_energy lib pot s dba) (len (heap s ! hd (db s))) =
           np_div (predicted_energy lib pot s dba) (len (heap s ! dba))) \<and>
      (\<forall>dba\<in>set (db s). reference_energy s dba \<noteq> 0 \<longrightarrow>
         np_div (reference_energy s dba) (len (heap s ! hd (db s))) =
           np_div (reference_energy s dba) (len (heap s ! dba)) \<longrightarrow>
         len (heap s ! dba) = len (heap s ! hd (db s))) \<and>
      (\<forall>dba\<in>set (db s). predicted_energy lib pot s dba \<noteq> 0 \<longrightarrow>
         np_div (predicted_energy lib pot s dba) (len (heap s ! hd (db s))) =
           np_div (predicted_energy lib pot s dba) (len (heap s ! dba)) \<longrightarrow>
         len (heap s ! dba) = len (heap s ! hd (db s))))"
proof (intro conjI impI ballI)
  assume "db s = []"
  then show "per_atom_energies lib pot s = Inl IndexError"
    by (simp add: per_atom_energies_def qm_energies_def gap_energies_def Natoms_def)
next
  assume "db s \<noteq> []" and "\<forall>r\<in>set (db s). r < length (heap s) \<and> energy (heap s ! r) \<noteq> None"
  then show "per_atom_energies lib pot s =
        Inr (map (\<lambda>dba. np_div (reference_energy s dba) (len (heap s ! hd (db s)))) (db s),
             map (\<lambda>dba. np_div (predicted_energy lib pot s dba) (len (heap s ! hd (db s)))) (db s))"
    by (rule per_atom_energies_Inr)
next
  fix dba
  assume "len (heap s ! dba) = len (heap s ! hd (db s))"
  then show "np_div (reference_energy s dba) (len (heap s ! hd (db s))) =
           np_div (reference_energy s dba) (len (heap s ! dba))"
    and "np_div (predicted_energy lib pot s dba) (len (heap s ! hd (db s))) =
           np_div (predicted_energy lib pot s dba) (len (heap s ! dba))"
    by simp_all
next
  fix dba
  assume "reference_energy s dba \<noteq> 0"
    and "np_div (reference_energy s dba) (len (heap s ! hd (db s))) =
           np_div (reference_energy s dba) (len (heap s ! dba))"
  then show "len (heap s ! dba) = len (heap s ! hd (db s))"
    by (rule np_div_same_count[symmetric])
next
  fix dba
  assume "predicted_energy lib pot s dba \<noteq> 0"
    and "np_div (predicted_energy lib pot s dba) (len (heap s ! hd (db s))) =
           np_div (predicted_energy lib pot s dba) (len (heap s ! dba))"
  then show "len (heap s ! dba) = len (heap s ! hd (db s))"
    by (rule np_div_same_count[symmetric])
qed

theorem per_atom_energies_witness:
  "db mixed_database = [1, 2] \<and>
   len (heap mixed_database ! 1) = 2 \<and> len (heap mixed_database ! 2) = 1 \<and>
   reference_energy mixed_database 1 = - 4 \<and> reference_energy mixed_database 2 = - 12 \<and>
   predicted_energy toy_library (GAP ''gap_2b.xml'') mixed_database 1 = - 10 \<and>
   predicted_energy toy_library (GAP ''gap_2b.xml'') mixed_database 2 = - 5 \<and>
   per_atom_energies toy_library (GAP ''gap_2b.xml'') mixed_database =
     Inr ([Finite (- 2), Finite (- 6)], [Finite (- 5), Finite (- 5 / 2)]) \<and>
   np_div (reference_energy mixed_database 2) (len (heap mixed_database ! hd (db mixed_database)))
     \<noteq> np_div (reference_energy mixed_database 2) (len (heap mixed_database ! 2))"
  using per_atom_energies_use_first_count[of mixed_database toy_library "GAP ''gap_2b.xml''"]
  by (simp add: mixed_database_def isolated_atom_def dimer_def len_def reference_energy_def
        predicted_energy_def toy_library_def np_div_def)

theorem zero_energy_exact_counterexample:
  "len (heap zero_energy_database ! 2) \<noteq> len (heap zero_energy_database ! hd (db zero_energy_database)) \<and>
   per_atom_energies silent_library (GAP ''gap_2b.xml'') zero_energy_database =
     Inr ([Finite (- 4), Finite 0], [Finite 0, Finite 0]) \<and>
   np_div (reference_energy zero_energy_database 2)
          (len (heap zero_energy_database ! hd (db zero_energy_database))) =
     np_div (reference_energy zero_energy_database 2) (len (heap zero_energy_database ! 2)) \<and>
   np_div (predicted_energy silent_library (GAP ''gap_2b.xml'') zero_energy_database 2)
          (len (heap zero_energy_database ! hd (db zero_energy_database))) =
     np_div (predicted_energy silent_library (GAP ''gap_2b.xml'') zero_energy_database 2)
          (len (heap zero_energy_database ! 2))"
proof -
  have ne: "db zero_energy_database \<noteq> []"
    and ok: "\<forall>r\<in>set (db zero_energy_database).
        r < length (heap zero_energy_database) \<and> energy (heap zero_energy_database ! r) \<noteq> None"
    by (simp_all add: zero_energy_database_def isolated_atom_def dimer_def)
  show ?thesis
    by (simp add: per_atom_energies_Inr[OF ne ok])
       (simp add: zero_energy_database_def isolated_atom_def dimer_def len_def reference_energy_def
        predicted_energy_def silent_library_def toy_library_def np_div_def)
qed

section \<open>Velocities at the start of each run\<close>

lemma md_step_integrates: "driven s \<Longrightarrow> integrated (md_step lib k s)"
  by (simp add: driven_def integrated_def md_step_def Let_def live_def)

lemma md_step_integrated: "integrated s \<Longrightarrow> integrated (md_step lib k s)"
  by (rule md_step_integrates) (simp add: integrated_def)

lemma invoke_integrated: "integrated s \<Longrightarrow> integrated (invoke lib f s)"
  by (cases f)
     (auto simp: integrated_def driven_def live_def print_status_def print_energy_def
        collect_data_def copy_def get_potential_energy_def Let_def nth_append)

lemma dynamics_run_integrates:
  assumes "driven s" and "0 < steps"
  shows "integrated (dynamics_run lib steps s)"
  unfolding dynamics_run_def
  by (rule run_establishes[where I = driven and J = integrated,
        OF md_step_integrates md_step_integrated invoke_integrated assms])

lemma evaluate_loop_frame:
  "atoms (snd (evaluate_loop lib pot rs es s)) = atoms s \<and>
   dynamics (snd (evaluate_loop lib pot rs es s)) = dynamics s \<and>
   length (heap s) \<le> length (heap (snd (evaluate_loop lib pot rs es s))) \<and>
   (\<forall>r<length (heap s). heap (snd (evaluate_loop lib pot rs es s)) ! r = heap s ! r)"
proof (induction rs arbitrary: es s)
  case Nil
  show ?case by simp
next
  case (Cons dba rs)
  let ?s2 = "snd (get_potential_energy lib (fst (copy dba s))
            (set_calculator (fst (copy dba s)) pot (snd (copy dba s))))"
  let ?e = "fst (get_potential_energy lib (fst (copy dba s))
            (set_calculator (fst (copy dba s)) pot (snd (copy dba s))))"
  have unfold: "evaluate_loop lib pot (dba # rs) es s = evaluate_loop lib pot rs (es @ [?e]) ?s2"
    by (simp add: split_beta)
  have a: "atoms ?s2 = atoms s" and d: "dynamics ?s2 = dynamics s"
    by (simp_all add: copy_def set_calculator_def get_potential_energy_def Let_def)
  have len2: "length (heap ?s2) = Suc (length (heap s))"
    by (simp add: evaluate_step_heap)
  have old: "heap ?s2 ! r = heap s ! r" if "r < length (heap s)" for r
    using that by (simp add: evaluate_step_heap nth_append)
  note IH = Cons.IH[of "es @ [?e]" ?s2, folded unfold]
  have "heap (snd (evaluate_loop lib pot (dba # rs) es s)) ! r = heap s ! r"
    if "r < length (heap s)" for r
  proof -
    from that have "r < length (heap ?s2)" by (simp add: len2)
    with IH have "heap (snd (evaluate_loop lib pot (dba # rs) es s)) ! r = heap ?s2 ! r"
      by blast
    then show ?thesis by (simp only: old[OF that])
  qed
  moreover have "length (heap s) \<le> length (heap (snd (evaluate_loop lib pot (dba # rs) es s)))"
    using IH len2 by linarith
  ultimately show ?case using IH a d by simp
qed

lemma gap_energies_integrated:
  assumes "integrated s"
  shows "integrated (snd (gap_energies lib pot s))"
proof -
  note f = evaluate_loop_frame[of lib pot "db s" "[]" s, folded gap_energies_def]
  from assms have "atoms s < length (heap s)" by (simp add: integrated_def driven_def)
  with f have "heap (snd (gap_energies lib pot s)) ! atoms s = heap s ! atoms s"
    and "atoms s < length (heap (snd (gap_energies lib pot s)))"
    by auto
  with f assms show ?thesis by (simp add: integrated_def driven_def live_def)
qed

lemma evaluation_passes_integrated: "integrated s \<Longrightarrow> integrated (evaluation_passes lib s)"
  by (simp add: evaluation_passes_def gap_energies_integrated)

lemma cell45_attach_integrated: "integrated s \<Longrightarrow> integrated (cell45_attach s)"
  by (simp add: cell45_attach_def integrated_def driven_def live_def attach_def Let_def)

lemma cell86_integrated: "integrated s \<Longrightarrow> integrated (cell86 lib s)"
  by (simp add: cell86_def integrated_def driven_def live_def attach_def Let_def
        set_calculator_def Langevin_def)

lemma first_run_start_driven: "driven (first_run_start lib slab)"
  by (simp add: first_run_start_def cell13_def start_def driven_def Let_def attach_def
        Langevin_def set_calculator_def MaxwellBoltzmannDistribution_def)

lemma first_run_start_thermal:
  "momenta_from (live (first_run_start lib slab)) = MaxwellBoltzmann (2.0 * T * units_kB lib)"
  by (simp add: first_run_start_def cell13_def start_def live_def Let_def attach_def
        Langevin_def set_calculator_def MaxwellBoltzmannDistribution_def)

lemma cell15_integrated: "integrated (cell15 lib (first_run_start lib slab))"
  unfolding cell15_def by (rule dynamics_run_integrates[OF first_run_start_driven]) simp

lemma second_run_start_integrated: "integrated (second_run_start lib slab)"
  unfolding second_run_start_def by (rule cell45_attach_integrated[OF cell15_integrated])

lemma validation_run_start_integrated: "integrated (validation_run_start lib slab)"
proof -
  have "driven (cell45_attach (cell15 lib (first_run_start lib slab)))"
    using cell45_attach_integrated[OF cell15_integrated] by (simp add: integrated_def)
  then have "integrated (cell45 lib (cell15 lib (first_run_start lib slab)))"
    unfolding cell45_def by (rule dynamics_run_integrates) simp
  then show ?thesis
    unfolding validation_run_start_def
    by (intro cell86_integrated evaluation_passes_integrated)
qed

lemma cell86_keeps_momenta:
  "momenta (live (cell86 lib s)) = momenta (live s) \<and>
   momenta_from (live (cell86 lib s)) = momenta_from (live s)"
  by (cases "atoms s < length (heap s)")
     (simp_all add: cell86_def live_def set_calculator_def Let_def list_update_beyond)

text \<open>
  C3, amended.  The first run (cell 15) starts from momenta assigned by
  \<^verbatim>\<open>MaxwellBoltzmannDistribution\<close> with the parameter \<open>2 T k\<^sub>B\<close>.  The continued run
  of cell 45 and the run with the fitted potential (cell 88) start from the momenta
  that the integrator left: cell 86 assigns no velocities.
\<close>

theorem velocities_at_run_starts:
  "momenta_from (live (first_run_start lib slab)) = MaxwellBoltzmann (2.0 * T * units_kB lib) \<and>
   momenta_from (live (second_run_start lib slab)) = Integrated \<and>
   momenta_from (live (validation_run_start lib slab)) = Integrated \<and>
   momenta (live (cell86 lib s)) = momenta (live s) \<and>
   momenta_from (live (cell86 lib s)) = momenta_from (live s)"
  using first_run_start_thermal second_run_start_integrated validation_run_start_integrated
    cell86_keeps_momenta
  by (simp add: integrated_def)

theorem validation_run_not_thermalised_counterexample:
  "momenta_from (live (validation_run_start toy_library default_slab)) \<noteq>
     MaxwellBoltzmann (2.0 * T * units_kB toy_library)"
  using validation_run_start_integrated[of toy_library default_slab]
  by (simp add: integrated_def)

section \<open>Properties of the descriptors\<close>

lemma distinct_concat_pairs:
  assumes "distinct xs" and "\<And>i. distinct (f i)"
  shows "distinct (concat (map (\<lambda>i. map (\<lambda>j. (i, j)) (f i)) xs))"
  using assms(1)
proof (induction xs)
  case Nil
  show ?case by simp
next
  case (Cons x xs)
  have "distinct (map (\<lambda>j. (x, j)) (f x))"
    using assms(2)[of x] by (simp add: distinct_map inj_on_def)
  moreover have "set (map (\<lambda>j. (x, j)) (f x)) \<inter> set (concat (map (\<lambda>i. map (\<lambda>j. (i, j)) (f i)) xs)) = {}"
    using Cons.prems by auto
  ultimately show ?case using Cons by simp
qed

lemma neighbours_calc_connect:
  "i < length ps \<Longrightarrow>
   neighbours (calc_connect c ps) ! i =
     filter (\<lambda>j. j \<noteq> i \<and> distance (ps ! i) (ps ! j) \<le> c) [0..<length ps]"
  by (simp add: calc_connect_def)

lemma pairs_within_connected:
  assumes "cutoff d \<le> c"
  shows "pairs_within d ps (calc_connect c ps) =
     Inr (concat (map (\<lambda>i. map (\<lambda>j. (i, j))
            (filter (\<lambda>j. i < j \<and> distance (ps ! i) (ps ! j) < cutoff d) [0..<length ps]))
          [0..<length ps]))"
proof -
  have inner: "filter (\<lambda>j. i < j \<and> distance (ps ! i) (ps ! j) < cutoff d)
           (neighbours (calc_connect c ps) ! i) =
        filter (\<lambda>j. i < j \<and> distance (ps ! i) (ps ! j) < cutoff d) [0..<length ps]"
    if "i < length ps" for i
  proof -
    have "filter (\<lambda>j. i < j \<and> distance (ps ! i) (ps ! j) < cutoff d)
           (neighbours (calc_connect c ps) ! i) =
          filter (\<lambda>j. (j \<noteq> i \<and> distance (ps ! i) (ps ! j) \<le> c) \<and>
                       (i < j \<and> distance (ps ! i) (ps ! j) < cutoff d)) [0..<length ps]"
      by (simp only: neighbours_calc_connect[OF that] filter_filter)
    also have "\<dots> = filter (\<lambda>j. i < j \<and> distance (ps ! i) (ps ! j) < cutoff d) [0..<length ps]"
      using assms by (intro filter_cong refl) auto
    finally show ?thesis .
  qed
  have "map (\<lambda>i. map (\<lambda>j. (i, j))
            (filter (\<lambda>j. i < j \<and> distance (ps ! i) (ps ! j) < cutoff d)
               (neighbours (calc_connect c ps) ! i))) [0..<length ps] =
        map (\<lambda>i. map (\<lambda>j. (i, j))
            (filter (\<lambda>j. i < j \<and> distance (ps ! i) (ps ! j) < cutoff d) [0..<length ps]))
          [0..<length ps]"
    by (rule map_cong[OF refl]) (simp add: inner)
  moreover have "\<not> connect_cutoff (calc_connect c ps) < cutoff d"
    using assms by (simp add: calc_connect_def)
  ultimately show ?thesis by (simp only: pairs_within_def if_False)
qed

lemma set_pairs:
  "set (concat (map (\<lambda>i. map (\<lambda>j. (i, j))
            (filter (\<lambda>j. i < j \<and> distance (ps ! i) (ps ! j) < r) [0..<length ps]))
          [0..<length ps])) =
   {(i, j). i < j \<and> j < length ps \<and> distance (ps ! i) (ps ! j) < r}"
proof (intro set_eqI iffI)
  fix x
  assume "x \<in> set (concat (map (\<lambda>i. map (\<lambda>j. (i, j))
            (filter (\<lambda>j. i < j \<and> distance (ps ! i) (ps ! j) < r) [0..<length ps]))
          [0..<length ps]))"
  then show "x \<in> {(i, j). i < j \<and> j < length ps \<and> distance (ps ! i) (ps ! j) < r}"
    by auto
next
  fix x
  assume "x \<in> {(i, j). i < j \<and> j < length ps \<and> distance (ps ! i) (ps ! j) < r}"
  then obtain i j where x: "x = (i, j)" "i < j" "j < length ps" "distance (ps ! i) (ps ! j) < r"
    by auto
  then have "i \<in> set [0..<length ps]"
    and "x \<in> set (map (\<lambda>j. (i, j))
            (filter (\<lambda>j. i < j \<and> distance (ps ! i) (ps ! j) < r) [0..<length ps]))"
    by simp_all
  then show "x \<in> set (concat (map (\<lambda>i. map (\<lambda>j. (i, j))
            (filter (\<lambda>j. i < j \<and> distance (ps ! i) (ps ! j) < r) [0..<length ps]))
          [0..<length ps]))"
    unfolding set_concat by (intro UN_I[where a = "map (\<lambda>j. (i, j))
            (filter (\<lambda>j. i < j \<and> distance (ps ! i) (ps ! j) < r) [0..<length ps])"]) auto
qed

lemma length_pairs:
  "length (concat (map (\<lambda>i. map (\<lambda>j. (i, j))
            (filter (\<lambda>j. i < j \<and> distance (ps ! i) (ps ! j) < r) [0..<length ps]))
          [0..<length ps])) =
   card {(i, j). i < j \<and> j < length ps \<and> distance (ps ! i) (ps ! j) < r}"
proof -
  have "distinct (concat (map (\<lambda>i. map (\<lambda>j. (i, j))
            (filter (\<lambda>j. i < j \<and> distance (ps ! i) (ps ! j) < r) [0..<length ps]))
          [0..<length ps]))"
    by (rule distinct_concat_pairs) simp_all
  from distinct_card[OF this] show ?thesis by (simp only: set_pairs)
qed

text \<open>
  C7.  When the connectivity of a configuration has been computed with a cutoff that is
  at least the cutoff of a pairwise descriptor, \<open>count\<close> is the number of unordered
  pairs of atoms whose distance is less than the descriptor's cutoff, the descriptor
  has that many values, and every value (a pair distance) is strictly less than the
  cutoff.
\<close>

theorem count_is_number_of_pairs_within_cutoff:
  assumes "cutoff d \<le> c"
  shows "count d ps (calc_connect c ps) =
           Inr (card {(i, j). i < j \<and> j < length ps \<and> distance (ps ! i) (ps ! j) < cutoff d}) \<and>
         (\<exists>ds. calc_descriptor d ps (calc_connect c ps) = Inr ds \<and>
               length ds = card {(i, j). i < j \<and> j < length ps \<and> distance (ps ! i) (ps ! j) < cutoff d} \<and>
               (\<forall>x\<in>set ds. x < cutoff d))"
proof -
  note p = pairs_within_connected[OF assms, of ps]
  have "count d ps (calc_connect c ps) =
           Inr (card {(i, j). i < j \<and> j < length ps \<and> distance (ps ! i) (ps ! j) < cutoff d})"
    by (simp only: count_def p sum.case length_pairs)
  moreover have "calc_descriptor d ps (calc_connect c ps) =
      Inr (map (\<lambda>(i, j). distance (ps ! i) (ps ! j))
        (concat (map (\<lambda>i. map (\<lambda>j. (i, j))
            (filter (\<lambda>j. i < j \<and> distance (ps ! i) (ps ! j) < cutoff d) [0..<length ps]))
          [0..<length ps])))"
    by (simp only: calc_descriptor_def p sum.case)
  moreover have "length (map (\<lambda>(i, j). distance (ps ! i) (ps ! j))
        (concat (map (\<lambda>i. map (\<lambda>j. (i, j))
            (filter (\<lambda>j. i < j \<and> distance (ps ! i) (ps ! j) < cutoff d) [0..<length ps]))
          [0..<length ps]))) =
      card {(i, j). i < j \<and> j < length ps \<and> distance (ps ! i) (ps ! j) < cutoff d}"
    by (simp only: length_map length_pairs)
  moreover have "\<forall>x\<in>set (map (\<lambda>(i, j). distance (ps ! i) (ps ! j))
        (concat (map (\<lambda>i. map (\<lambda>j. (i, j))
            (filter (\<lambda>j. i < j \<and> distance (ps ! i) (ps ! j) < cutoff d) [0..<length ps]))
          [0..<length ps]))). x < cutoff d"
    by auto
  ultimately show ?thesis by blast
qed

lemma distance_on_axis: "distance (a, 0, 0) (b, 0, 0) = \<bar>a - b\<bar>"
  by (simp add: distance_def)

lemma three_atoms_descriptor:
  "calc_descriptor distance_Nb_order2 [(0, 0, 0), (3, 0, 0), (10, 0, 0)]
     (calc_connect 4 [(0, 0, 0), (3, 0, 0), (10, 0, 0)]) = Inr [3]"
  by (simp add: calc_descriptor_def pairs_within_def calc_connect_def distance_Nb_order2_def
        upt_conv_Cons distance_on_axis)

theorem count_witness:
  "cutoff distance_Nb_order2 \<le> 4 \<and>
   count distance_Nb_order2 [(0, 0, 0), (3, 0, 0), (10, 0, 0)]
     (calc_connect 4 [(0, 0, 0), (3, 0, 0), (10, 0, 0)]) = Inr 1 \<and>
   calc_descriptor distance_Nb_order2 [(0, 0, 0), (3, 0, 0), (10, 0, 0)]
     (calc_connect 4 [(0, 0, 0), (3, 0, 0), (10, 0, 0)]) = Inr [3]"
proof -
  have c: "cutoff distance_Nb_order2 \<le> 4" by (simp add: distance_Nb_order2_def)
  from count_is_number_of_pairs_within_cutoff[OF c, of "[(0, 0, 0), (3, 0, 0), (10, 0, 0)]"]
  obtain ds where ds: "calc_descriptor distance_Nb_order2 [(0, 0, 0), (3, 0, 0), (10, 0, 0)]
       (calc_connect 4 [(0, 0, 0), (3, 0, 0), (10, 0, 0)]) = Inr ds"
    and n: "count distance_Nb_order2 [(0, 0, 0), (3, 0, 0), (10, 0, 0)]
       (calc_connect 4 [(0, 0, 0), (3, 0, 0), (10, 0, 0)]) = Inr (length ds)"
    by auto
  from ds have "ds = [3]" by (simp only: three_atoms_descriptor sum.inject)
  with n ds c show ?thesis by simp
qed

lemma distance_commute: "distance p q = distance q p"
  by (cases p; cases q) (simp add: distance_def power2_commute)

lemma permutations_order2: "permutations distance_Nb_order2 = [[0, 1], [1, 0]]"
  by (simp add: permutations_def distance_Nb_order2_def upt_conv_Cons)

text \<open>
  C8.  The pairwise descriptor (order 2) declares exactly two permutations of the atoms
  of a pair, the identity and the swap, and for every pair of atoms \<open>i\<close>, \<open>j\<close> the
  descriptor has the same value, the distance of the two atoms, under both.
\<close>

theorem pair_descriptor_permutations:
  "n_perm distance_Nb_order2 = 2 \<and>
   permutations distance_Nb_order2 = [[0, 1], [1, 0]] \<and>
   permute [i, j] [0, 1] = [i, j] \<and> permute [i, j] [1, 0] = [j, i] \<and>
   descriptor_value ps (permute [i, j] [0, 1]) = [distance (ps ! i) (ps ! j)] \<and>
   descriptor_value ps (permute [i, j] [1, 0]) = descriptor_value ps (permute [i, j] [0, 1])"
  by (simp add: n_perm_def permutations_order2 permute_def descriptor_value_def
        distance_commute[of "ps ! j"])

section \<open>Properties of the invocations of the fitter\<close>

text \<open>
  C10.  Each of the three invocations of the fitter passes the literal
  \<^verbatim>\<open>e0=-29.716948405885105\<close>.  The invocations are the same whatever the oracle
  returns for the isolated atom: the value of \<open>E0\<close> is not used.
\<close>

theorem fitter_offset_is_literal:
  "map (argument ''e0'') (fitter_invocations lib) =
     [Some ''-29.716948405885105'', Some ''-29.716948405885105'', Some ''-29.716948405885105''] \<and>
   fitter_invocations lib = fitter_invocations lib' \<and>
   cell56 x = cell56 y \<and> cell69 x = cell69 y \<and> cell79 x = cell79 y"
  by (simp add: fitter_invocations_def argument_def cell56_def cell69_def cell79_def Let_def)

end
